theory Spec2Isabelle
  imports Complex_Main "HOL-Library.Word"
begin

unbundle bit_operations_syntax

section \<open>Planner ring buffer (planner.h)\<close>

text \<open>
  The fixed-width integers of the firmware are words: \<open>uint8\<close> is \<open>8 word\<close>,
  \<open>uint24\<close> is \<open>24 word\<close>, \<open>uint32\<close> is \<open>32 word\<close>. The \<open>float\<close> fields of a block
  are modelled as reals: rounding of single-precision arithmetic is not part of the model.
\<close>

type_synonym uint8 = "8 word"
type_synonym uint16 = "16 word"
type_synonym uint24 = "24 word"
type_synonym uint32 = "32 word"

text \<open>\<open>enum BlockFlagBit\<close>: the bit numbers of the block flags.\<close>

definition BLOCK_BIT_RECALCULATE :: nat where "BLOCK_BIT_RECALCULATE = 0"
definition BLOCK_BIT_NOMINAL_LENGTH :: nat where "BLOCK_BIT_NOMINAL_LENGTH = 1"
definition BLOCK_BIT_START_FROM_FULL_HALT :: nat where "BLOCK_BIT_START_FROM_FULL_HALT = 2"
definition BLOCK_BIT_BUSY :: nat where "BLOCK_BIT_BUSY = 3"
definition BLOCK_BIT_ARC :: nat where "BLOCK_BIT_ARC = 4"

text \<open>
  Modelled from the spec: the bit macros \<open>TEST\<close>, \<open>SBI\<close> and \<open>CBI\<close> are used by the
  sources but defined in a header that is not part of them. The spec calls \<open>flags\<close> a
  bitset whose bits are tested, set and cleared; they are the usual
  \<open>(x >> b) & 1\<close>, \<open>x |= 1 << b\<close> and \<open>x &= ~(1 << b)\<close>.
\<close>

definition TEST :: "uint8 \<Rightarrow> nat \<Rightarrow> bool" where
  "TEST x b = (drop_bit b x AND 1 \<noteq> 0)"

definition SBI :: "uint8 \<Rightarrow> nat \<Rightarrow> uint8" where
  "SBI x b = x OR push_bit b 1"

definition CBI :: "uint8 \<Rightarrow> nat \<Rightarrow> uint8" where
  "CBI x b = x AND NOT (push_bit b 1)"

text \<open>
  \<open>struct block_t\<close>, with the fields of the configuration without optional features.
  Arrays indexed by axis are lists of \<open>NUM_AXIS = 4\<close> entries.
\<close>

record block_t =
  flag :: uint8
  active_extruder :: uint8
  steps :: "uint24 list"
  step_event_count :: uint24
  accelerate_until :: uint24
  decelerate_after :: uint24
  acceleration_rate :: uint24
  direction_bits :: uint8
  nominal_speed :: real
  entry_speed :: real
  max_entry_speed :: real
  millimeters :: real
  acceleration :: real
  nominal_rate :: uint24
  initial_rate :: uint24
  final_rate :: uint24
  acceleration_steps_per_s2 :: uint24
  fan_speed :: "uint8 list"
  segment_time :: uint32

text \<open>
  The compile-time configuration. \<open>BLOCK_BUFFER_SIZE\<close>, \<open>MIN_STEPS_PER_SEGMENT\<close> and the
  feature switches are defined in configuration headers that are not part of the sources,
  so they are parameters of the model. So is \<open>SQRT\<close>, the square root on \<open>float\<close>.
\<close>

record config =
  BLOCK_BUFFER_SIZE :: nat
  MIN_STEPS_PER_SEGMENT :: nat
  ULTRA_LCD :: bool
  SLOWDOWN :: bool
  PREVENT_COLD_EXTRUSION :: bool
  PREVENT_LENGTHY_EXTRUDE :: bool
  EXTRUDE_MAXLENGTH :: nat
  F_CPU :: nat
  SQRT :: "real \<Rightarrow> real"

text \<open>The static members of \<open>class Planner\<close>, and the static local of \<open>_buffer_line\<close>.\<close>

record planner =
  block_buffer :: "block_t list"
  block_buffer_head :: uint8
  block_buffer_tail :: uint8
  max_feedrate_mm_s :: "real list"
  axis_steps_per_mm :: "real list"
  steps_to_mm :: "real list"
  max_acceleration_steps_per_s2 :: "uint32 list"
  min_segment_time :: uint32
  min_feedrate_mm_s :: real
  acceleration_mm_s2 :: real
  retract_acceleration :: real
  travel_acceleration :: real
  max_jerk :: "real list"
  min_travel_feedrate_mm_s :: real
  position :: "uint24 list"
  previous_speed :: "real list"
  previous_nominal_speed :: real
  cutoff_long :: uint32
  block_buffer_runtime_us :: uint32
  previous_safe_speed :: real

text \<open>
  \<open>#define BLOCK_MOD(n) ((n)&(BLOCK_BUFFER_SIZE-1))\<close>. The operand is an \<open>int\<close> after
  the integer promotions, so the mask is taken on integers.
\<close>

definition BLOCK_MOD :: "config \<Rightarrow> int \<Rightarrow> int" where
  "BLOCK_MOD cfg n = n AND (int (BLOCK_BUFFER_SIZE cfg) - 1)"

definition movesplanned :: "config \<Rightarrow> planner \<Rightarrow> uint8" where
  "movesplanned cfg p =
     word_of_int (BLOCK_MOD cfg (uint (block_buffer_head p) - uint (block_buffer_tail p)
                                 + int (BLOCK_BUFFER_SIZE cfg)))"

definition is_full :: "config \<Rightarrow> planner \<Rightarrow> bool" where
  "is_full cfg p = (uint (block_buffer_tail p) = BLOCK_MOD cfg (uint (block_buffer_head p) + 1))"

definition blocks_queued :: "planner \<Rightarrow> bool" where
  "blocks_queued p = (block_buffer_head p \<noteq> block_buffer_tail p)"

text \<open>\<open>next_block_index\<close> and \<open>prev_block_index\<close> take and return an \<open>int8_t\<close>.\<close>

definition next_block_index :: "config \<Rightarrow> uint8 \<Rightarrow> uint8" where
  "next_block_index cfg block_index = word_of_int (BLOCK_MOD cfg (sint block_index + 1))"

definition prev_block_index :: "config \<Rightarrow> uint8 \<Rightarrow> uint8" where
  "prev_block_index cfg block_index = word_of_int (BLOCK_MOD cfg (sint block_index - 1))"

text \<open>\<open>Planner::discard_current_block\<close>.\<close>

definition discard_current_block :: "config \<Rightarrow> planner \<Rightarrow> planner" where
  "discard_current_block cfg p =
     (if blocks_queued p
      then p\<lparr>block_buffer_tail := word_of_int (BLOCK_MOD cfg (uint (block_buffer_tail p) + 1))\<rparr>
      else p)"

text \<open>
  \<open>Planner::get_current_block\<close>. The returned pointer is the index of the block in
  \<open>block_buffer\<close>, \<open>None\<close> for \<open>nullptr\<close>; the second component is the planner afterwards.
  With \<open>ULTRA_LCD\<close> the accumulated run time is reduced by the block's segment time, and
  reset when the buffer is empty.
\<close>

definition get_current_block :: "config \<Rightarrow> planner \<Rightarrow> nat option \<times> planner" where
  "get_current_block cfg p =
     (if blocks_queued p then
        (let t = unat (block_buffer_tail p);
             block = block_buffer p ! t
         in if (if 1 < unat (movesplanned cfg p)
                then (let next = block_buffer p ! nat (sint (next_block_index cfg (block_buffer_tail p)))
                      in TEST (flag block) BLOCK_BIT_RECALCULATE \<or> TEST (flag next) BLOCK_BIT_RECALCULATE)
                else TEST (flag block) BLOCK_BIT_RECALCULATE)
            then (None, p)
            else
              (let p1 = (if ULTRA_LCD cfg
                         then p\<lparr>block_buffer_runtime_us := block_buffer_runtime_us p - segment_time block\<rparr>
                         else p)
               in (Some t,
                   p1\<lparr>block_buffer :=
                        (block_buffer p1)[t := block\<lparr>flag := SBI (flag block) BLOCK_BIT_BUSY\<rparr>]\<rparr>)))
      else (None, if ULTRA_LCD cfg then p\<lparr>block_buffer_runtime_us := 0\<rparr> else p))"

text \<open>
  The states the ring buffer can be in: the array has \<open>BLOCK_BUFFER_SIZE\<close> entries, the
  size is a power of two that an \<open>int8_t\<close> index can address, and both indices are
  inside the array.
\<close>

definition planner_ok :: "config \<Rightarrow> planner \<Rightarrow> bool" where
  "planner_ok cfg p =
     ((BLOCK_BUFFER_SIZE cfg \<in> {2, 4, 8, 16, 32, 64, 128})
      \<and> length (block_buffer p) = BLOCK_BUFFER_SIZE cfg
      \<and> unat (block_buffer_head p) < BLOCK_BUFFER_SIZE cfg
      \<and> unat (block_buffer_tail p) < BLOCK_BUFFER_SIZE cfg)"


section \<open>Temperature control (thermal.cpp)\<close>

text \<open>
  \<open>temp_t\<close> is an unsigned fixed-point number of degrees whose class is defined in a
  header that is not part of the sources. It is modelled by its raw value, an integer
  number of \<open>1 / TEMP_ONE\<close> degrees; what its subtraction does below zero is not modelled.
\<close>

type_synonym millis_t = uint32
type_synonym temp_t = int

datatype Manager = Hotend | Bed

datatype TRState = TRInactive | TRFirstHeating | TRStable | TRRunaway

datatype sensor_state = initialize_hotend | read_hotend | initialize_bed | read_bed | ready

text \<open>The message with which \<open>_temp_error\<close> is called.\<close>

datatype temp_fault = T_MAXTEMP | T_MINTEMP | T_HEATING_FAILED | T_THERMAL_RUNAWAY

definition ENABLE_ERROR_3 :: bool where "ENABLE_ERROR_3 = True"
definition ENABLE_ERROR_4 :: bool where "ENABLE_ERROR_4 = True"
definition ENABLE_ERROR_5 :: bool where "ENABLE_ERROR_5 = True"

text \<open>\<open>Temperature::is_preheating\<close> and \<open>has_bed_thermal_management\<close> (temperature.hpp).\<close>

definition is_preheating :: bool where "is_preheating = False"
definition has_bed_thermal_management :: bool where "has_bed_thermal_management = False"

text \<open>
  The constants and functions of the thermistor tables, the heater manager and the
  configuration, all defined outside the sources, are parameters of the model.
\<close>

record thermal_env =
  TEMP_ONE :: int
  adc_to_temperature :: "uint16 \<Rightarrow> temp_t"
  clamp_adc :: "uint16 \<Rightarrow> uint16"
  get_power :: "temp_t \<Rightarrow> temp_t \<Rightarrow> uint8"
  HEATER_0_RAW_LO_TEMP :: int
  HEATER_0_RAW_HI_TEMP :: int
  HEATER_BED_RAW_LO_TEMP :: int
  HEATER_BED_RAW_HI_TEMP :: int
  Hotend_max_temperature_Adc :: uint16
  Hotend_min_temperature_Adc :: uint16
  Bed_max_temperature_Adc :: uint16
  Bed_min_temperature_Adc :: uint16
  HEATER_0_MAXTEMP :: nat
  HEATER_0_MINTEMP :: nat
  BED_MAXTEMP :: nat
  BED_MINTEMP :: nat
  WATCH_TEMP_INCREASE :: nat
  TEMP_HYSTERESIS :: nat
  WATCH_TEMP_PERIOD :: nat
  WATCH_BED_TEMP_INCREASE :: nat
  TEMP_BED_HYSTERESIS :: nat
  WATCH_BED_TEMP_PERIOD :: nat
  THERMAL_PROTECTION_PERIOD :: int
  THERMAL_PROTECTION_HYSTERESIS :: int
  THERMAL_PROTECTION_BED_PERIOD :: int
  THERMAL_PROTECTION_BED_HYSTERESIS :: int
  MAX_BED_POWER :: uint8
  OVERSAMPLENR :: uint16
  BOGUS_TEMPERATURE_FAILSAFE_OVERRIDE :: bool

text \<open>
  The state of the temperature controller: the static members of \<open>class Temperature\<close>,
  the static locals of its functions, the globals it shares with the main program, the two
  heater outputs, and two observers: \<open>temp_error_log\<close> records every call of
  \<open>_temp_error\<close>, \<open>wdr_count\<close> counts the executed watchdog resets.
\<close>

record thermal =
  Running :: bool
  killed :: bool
  temp_error_log :: "(Manager \<times> temp_fault) list"
  current_temperature :: temp_t
  current_temperature_bed :: temp_t
  target_temperature :: temp_t
  target_temperature_bed :: temp_t
  watch_target_temp :: temp_t
  watch_heater_next_ms :: millis_t
  watch_target_bed_temp :: temp_t
  watch_bed_next_ms :: millis_t
  soft_pwm_amount :: uint8
  is_bed_heating :: bool
  ready_flag :: bool
  raw_adc_hotend :: uint16
  raw_adc_bed :: uint16
  m_Positive :: bool
  m_MeanSum :: int
  thermal_runaway_state_machine :: TRState
  thermal_runaway_timer :: millis_t
  thermal_runaway_bed_state_machine :: TRState
  thermal_runaway_bed_timer :: millis_t
  tr_target_temperature_hotend :: temp_t
  tr_target_temperature_bed :: temp_t
  autotemp_enabled :: bool
  print_job_timer_running :: bool
  steppers_enabled :: bool
  interrupts_enabled :: bool
  HEATER_0 :: bool
  HEATER_BED :: bool
  wdr_count :: nat
  adc_sensor_state :: sensor_state
  local_raw_adc_hotend :: nat
  local_raw_adc_bed :: nat
  skip_counter :: uint8
  pwm_counter :: uint8

text \<open>A whole number of degrees as a \<open>temp_t\<close>.\<close>

definition deg_C :: "thermal_env \<Rightarrow> int \<Rightarrow> temp_t" where
  "deg_C env n = n * TEMP_ONE env"



text \<open>\<open>Tuna::intrinsic::wdr\<close>, the watchdog reset instruction, and \<open>cli\<close>.\<close>

definition wdr :: "thermal \<Rightarrow> thermal" where
  "wdr s = s\<lparr>wdr_count := Suc (wdr_count s)\<rparr>"

definition cli :: "thermal \<Rightarrow> thermal" where
  "cli s = s\<lparr>interrupts_enabled := False\<rparr>"

definition disable_all_steppers :: "thermal \<Rightarrow> thermal" where
  "disable_all_steppers s = s\<lparr>steppers_enabled := False\<rparr>"

text \<open>\<open>Temperature::start_watching_heater\<close> and \<open>start_watching_bed\<close>; \<open>now\<close> is \<open>millis()\<close>.\<close>

definition start_watching_heater :: "thermal_env \<Rightarrow> millis_t \<Rightarrow> thermal \<Rightarrow> thermal" where
  "start_watching_heater env now s =
     (if current_temperature s
           < target_temperature s
             - deg_C env (int ((WATCH_TEMP_INCREASE env + TEMP_HYSTERESIS env + 1) mod 256))
      then s\<lparr>watch_target_temp :=
                current_temperature s + deg_C env (int (WATCH_TEMP_INCREASE env mod 256)),
              watch_heater_next_ms := now + word_of_nat (WATCH_TEMP_PERIOD env) * 1000\<rparr>
      else s\<lparr>watch_heater_next_ms := 0\<rparr>)"

definition start_watching_bed :: "thermal_env \<Rightarrow> millis_t \<Rightarrow> thermal \<Rightarrow> thermal" where
  "start_watching_bed env now s =
     (if current_temperature_bed s
           < target_temperature_bed s
             - deg_C env (int ((WATCH_BED_TEMP_INCREASE env + TEMP_BED_HYSTERESIS env + 1) mod 256))
      then s\<lparr>watch_target_bed_temp :=
                current_temperature_bed s + deg_C env (int (WATCH_BED_TEMP_INCREASE env)),
              watch_bed_next_ms := now + word_of_nat (WATCH_BED_TEMP_PERIOD env mod 256) * 1000\<rparr>
      else s\<lparr>watch_bed_next_ms := 0\<rparr>)"

definition setTargetHotend :: "thermal_env \<Rightarrow> millis_t \<Rightarrow> temp_t \<Rightarrow> thermal \<Rightarrow> thermal" where
  "setTargetHotend env now celsius s =
     start_watching_heater env now (s\<lparr>target_temperature := celsius\<rparr>)"

definition setTargetBed :: "thermal_env \<Rightarrow> millis_t \<Rightarrow> temp_t \<Rightarrow> thermal \<Rightarrow> thermal" where
  "setTargetBed env now celsius s =
     start_watching_bed env now
       (s\<lparr>target_temperature_bed := min celsius (deg_C env (int (BED_MAXTEMP env)))\<rparr>)"

text \<open>\<open>Temperature::disable_all_heaters\<close>.\<close>

definition disable_all_heaters :: "thermal_env \<Rightarrow> millis_t \<Rightarrow> thermal \<Rightarrow> thermal" where
  "disable_all_heaters env now s =
     (let s1 = s\<lparr>autotemp_enabled := False\<rparr>;
          s2 = setTargetHotend env now 0 s1;
          s3 = setTargetBed env now 0 s2;
          s4 = s3\<lparr>print_job_timer_running := False\<rparr>;
          s5 = setTargetHotend env now 0 s4;
          s6 = s5\<lparr>soft_pwm_amount := 0\<rparr>;
          s7 = s6\<lparr>HEATER_0 := False\<rparr>;
          s8 = s7\<lparr>target_temperature_bed := 0\<rparr>;
          s9 = s8\<lparr>is_bed_heating := False\<rparr>
      in s9\<lparr>HEATER_BED := False\<rparr>)"

text \<open>
  \<open>kill\<close> (Marlin_main.cpp). Its straight-line part ends with \<open>suicide()\<close>, whose body is
  empty; then comes \<open>while (1) { wdr(); }\<close>. \<open>kill_loop\<close> is that loop: a function
  that never returns has no value, \<open>None\<close>. \<open>kill_loop_iterations n\<close> is the state
  after \<open>n\<close> passes through the loop body.
\<close>

definition kill_prefix :: "thermal_env \<Rightarrow> millis_t \<Rightarrow> thermal \<Rightarrow> thermal" where
  "kill_prefix env now s =
     (let s1 = disable_all_heaters env now s;
          s2 = disable_all_steppers s1;
          s3 = cli s2
      in disable_all_heaters env now s3)"

partial_function (option) kill_loop :: "thermal \<Rightarrow> thermal option" where
  "kill_loop s = kill_loop (wdr s)"

fun kill_loop_iterations :: "nat \<Rightarrow> thermal \<Rightarrow> thermal" where
  "kill_loop_iterations 0 s = s"
| "kill_loop_iterations (Suc n) s = kill_loop_iterations n (wdr s)"

definition kill :: "thermal_env \<Rightarrow> millis_t \<Rightarrow> thermal \<Rightarrow> thermal option" where
  "kill env now s = kill_loop (kill_prefix env now s)"

text \<open>
  \<open>Temperature::_temp_error\<close>. The first call never returns, because \<open>kill\<close> does not:
  the result \<open>Inl\<close> carries the state in which the final loop of \<open>kill\<close> is entered.
  \<open>Inr\<close> is a normal return.
\<close>

definition temp_error ::
  "thermal_env \<Rightarrow> millis_t \<Rightarrow> Manager \<Rightarrow> temp_fault \<Rightarrow> thermal \<Rightarrow> thermal + thermal" where
  "temp_error env now manager_type msg s =
     (let s1 = s\<lparr>temp_error_log := temp_error_log s @ [(manager_type, msg)]\<rparr>
      in if BOGUS_TEMPERATURE_FAILSAFE_OVERRIDE env then Inr s1
         else if \<not> killed s1
           then Inl (kill_prefix env now (s1\<lparr>Running := False, killed := True\<rparr>))
           else Inr (disable_all_heaters env now s1))"

definition max_temp_error :: "thermal_env \<Rightarrow> millis_t \<Rightarrow> Manager \<Rightarrow> thermal \<Rightarrow> thermal + thermal" where
  "max_temp_error env now manager_type s = temp_error env now manager_type T_MAXTEMP s"

definition min_temp_error :: "thermal_env \<Rightarrow> millis_t \<Rightarrow> Manager \<Rightarrow> thermal \<Rightarrow> thermal + thermal" where
  "min_temp_error env now manager_type s = temp_error env now manager_type T_MINTEMP s"

text \<open>Sequencing of calls that may not return.\<close>

definition and_then :: "thermal + 'a \<Rightarrow> ('a \<Rightarrow> thermal + 'b) \<Rightarrow> thermal + 'b" where
  "and_then r f = (case r of Inl s \<Rightarrow> Inl s | Inr x \<Rightarrow> f x)"

definition when_error :: "bool \<Rightarrow> (thermal \<Rightarrow> thermal + thermal) \<Rightarrow> thermal \<Rightarrow> thermal + thermal" where
  "when_error c f s = (if c then f s else Inr s)"

text \<open>\<open>temp_trend::appendValue\<close>, on the raw values.\<close>

definition appendValue :: "temp_t \<Rightarrow> bool \<Rightarrow> thermal \<Rightarrow> thermal" where
  "appendValue raw_value positive s =
     (let m = m_MeanSum s - m_MeanSum s div 8
      in if positive = m_Positive s then s\<lparr>m_MeanSum := m + raw_value\<rparr>
         else if m < raw_value
           then s\<lparr>m_MeanSum := raw_value - m, m_Positive := \<not> m_Positive s\<rparr>
           else s\<lparr>m_MeanSum := m - raw_value\<rparr>)"

text \<open>
  \<open>Temperature::updateTemperaturesFromRawValues\<close>. Its two blocks of range checks,
  under \<open>#if ENABLE_ERROR_3\<close> for the hotend and \<open>#if ENABLE_ERROR_5\<close> for the bed,
  are \<open>hotend_range_check\<close> and \<open>bed_range_check\<close>. The result of the function is the
  returned flag and the state, or the state in which \<open>kill\<close> waits.
\<close>

definition hotend_range_check ::
  "thermal_env \<Rightarrow> millis_t \<Rightarrow> uint16 \<Rightarrow> thermal \<Rightarrow> thermal + thermal" where
  "hotend_range_check env now temperature_raw s =
     (if ENABLE_ERROR_3 then
        (if HEATER_0_RAW_LO_TEMP env < HEATER_0_RAW_HI_TEMP env then
           and_then
             (when_error (Hotend_max_temperature_Adc env \<le> temperature_raw
                          \<and> 0 < target_temperature s)
                (max_temp_error env now Hotend) s)
             (\<lambda>s. when_error ((temperature_raw \<le> Hotend_min_temperature_Adc env
                                \<and> \<not> is_preheating) \<and> 0 < target_temperature s)
                (min_temp_error env now Hotend) s)
         else
           and_then
             (when_error (temperature_raw \<le> Hotend_max_temperature_Adc env
                          \<and> 0 < target_temperature s)
                (max_temp_error env now Hotend) s)
             (\<lambda>s. when_error ((Hotend_min_temperature_Adc env \<le> temperature_raw
                                \<and> \<not> is_preheating) \<and> 0 < target_temperature s)
                (min_temp_error env now Hotend) s))
      else Inr s)"

definition bed_range_check ::
  "thermal_env \<Rightarrow> millis_t \<Rightarrow> uint16 \<Rightarrow> thermal \<Rightarrow> thermal + thermal" where
  "bed_range_check env now temperature_bed_raw s =
     (if ENABLE_ERROR_5 then
        (if HEATER_BED_RAW_LO_TEMP env < HEATER_BED_RAW_HI_TEMP env then
           and_then
             (when_error (Bed_max_temperature_Adc env \<le> temperature_bed_raw
                          \<and> 0 < target_temperature_bed s)
                (max_temp_error env now Bed) s)
             (\<lambda>s. when_error (temperature_bed_raw \<le> Bed_min_temperature_Adc env
                                \<and> 0 < target_temperature_bed s)
                (min_temp_error env now Bed) s)
         else
           and_then
             (when_error (temperature_bed_raw \<le> Bed_max_temperature_Adc env
                          \<and> 0 < target_temperature_bed s)
                (max_temp_error env now Bed) s)
             (\<lambda>s. when_error (Bed_min_temperature_Adc env \<le> temperature_bed_raw
                                \<and> 0 < target_temperature_bed s)
                (min_temp_error env now Bed) s))
      else Inr s)"

definition updateTemperaturesFromRawValues ::
  "thermal_env \<Rightarrow> millis_t \<Rightarrow> thermal \<Rightarrow> thermal + (bool \<times> thermal)" where
  "updateTemperaturesFromRawValues env now s =
     (if ready_flag s then
        (let temperature_raw = raw_adc_hotend s;
             temperature_bed_raw = raw_adc_bed s;
             s0 = s\<lparr>ready_flag := False\<rparr>
         in and_then
              (and_then (hotend_range_check env now temperature_raw s0)
                        (bed_range_check env now temperature_bed_raw))
              (\<lambda>s1.
                 let previous_temperature = current_temperature s1;
                     s2 = s1\<lparr>current_temperature :=
                                adc_to_temperature env (clamp_adc env temperature_raw),
                              current_temperature_bed :=
                                adc_to_temperature env (clamp_adc env temperature_bed_raw)\<rparr>;
                     s3 = (if previous_temperature \<le> current_temperature s2
                           then appendValue (current_temperature s2 - previous_temperature) True s2
                           else appendValue (previous_temperature - current_temperature s2) False s2)
                 in Inr (True, wdr s3)))
      else Inr (False, s))"








section \<open>Timer interrupt: ADC sampling and soft PWM (thermal.cpp)\<close>

text \<open>
  \<open>sensor_state\<close>'s \<open>operator++\<close>. The value after \<open>ready\<close> is outside the
  enumeration (the code assumes it is never reached); it is left at \<open>ready\<close>.
\<close>

fun sensor_state_succ :: "sensor_state \<Rightarrow> sensor_state" where
  "sensor_state_succ initialize_hotend = read_hotend"
| "sensor_state_succ read_hotend = initialize_bed"
| "sensor_state_succ initialize_bed = read_bed"
| "sensor_state_succ read_bed = ready"
| "sensor_state_succ ready = ready"

text \<open>
  \<open>running_average<uint16, 32>\<close>: the conversion to \<open>uint16\<close> and \<open>operator +=\<close>,
  on the accumulated \<open>value_\<close>, which the code assumes never to exceed \<open>65535 * 32\<close>.
\<close>

definition running_average_value :: "nat \<Rightarrow> uint16" where
  "running_average_value v = word_of_nat (v div 32)"

definition running_average_add :: "nat \<Rightarrow> uint16 \<Rightarrow> nat" where
  "running_average_add v new_value =
     v - unat (running_average_value v) + unat new_value"

text \<open>
  \<open>Temperature::isr\<close>; \<open>adc\<close> is the value of the \<open>ADC\<close> register. The constant
  \<open>uniform_distributed_pwm\<close> is \<open>false\<close>, so only the plain-counter branch runs. The
  pins written by \<open>set_pin\<close> are the outputs \<open>HEATER_0\<close> and \<open>HEATER_BED\<close>.
\<close>

definition skip_mask :: uint8 where "skip_mask = 8"

definition uniform_distributed_pwm :: bool where "uniform_distributed_pwm = False"

definition isr_adc :: "thermal_env \<Rightarrow> uint16 \<Rightarrow> thermal \<Rightarrow> thermal" where
  "isr_adc env adc s =
     (let s1 = s\<lparr>adc_sensor_state := sensor_state_succ (adc_sensor_state s)\<rparr>
      in case adc_sensor_state s of
           initialize_hotend \<Rightarrow> s1
         | read_hotend \<Rightarrow>
             s1\<lparr>local_raw_adc_hotend :=
                   running_average_add (local_raw_adc_hotend s1) (adc * OVERSAMPLENR env)\<rparr>
         | initialize_bed \<Rightarrow> s1
         | read_bed \<Rightarrow>
             (let s2 = s1\<lparr>local_raw_adc_bed :=
                            running_average_add (local_raw_adc_bed s1) (adc * OVERSAMPLENR env)\<rparr>
              in s2\<lparr>raw_adc_hotend := running_average_value (local_raw_adc_hotend s2),
                     raw_adc_bed := running_average_value (local_raw_adc_bed s2),
                     ready_flag := True,
                     adc_sensor_state := initialize_hotend\<rparr>)
         | ready \<Rightarrow> s1)"

definition isr_pwm :: "thermal \<Rightarrow> thermal" where
  "isr_pwm s =
     (let extruder_pwm = soft_pwm_amount s;
          bed_pwm = (if is_bed_heating s then 0xFF else 0 :: uint8);
          new_extruder_state = (pwm_counter s \<le> extruder_pwm \<and> 0 < extruder_pwm);
          new_bed_state = (pwm_counter s \<le> bed_pwm \<and> 0 < bed_pwm)
      in s\<lparr>pwm_counter := pwm_counter s + 1,
            HEATER_0 := new_extruder_state,
            HEATER_BED := new_bed_state\<rparr>)"

definition isr :: "thermal_env \<Rightarrow> uint16 \<Rightarrow> thermal \<Rightarrow> thermal" where
  "isr env adc s =
     (let s1 = isr_adc env adc s;
          s2 = s1\<lparr>skip_counter := skip_counter s1 + 1\<rparr>
      in if skip_counter s2 mod skip_mask \<noteq> 0 then s2 else isr_pwm s2)"

text \<open>The state in which a call that may not return leaves the controller.\<close>

definition final_state :: "thermal + (bool \<times> thermal) \<Rightarrow> thermal" where
  "final_state r = (case r of Inl s \<Rightarrow> s | Inr x \<Rightarrow> snd x)"

definition error_state :: "thermal + thermal \<Rightarrow> thermal" where
  "error_state r = (case r of Inl s \<Rightarrow> s | Inr s \<Rightarrow> s)"

text \<open>The calls of \<open>_temp_error\<close> made between the state \<open>s\<close> and the result \<open>r\<close>.\<close>

definition new_temp_errors :: "thermal \<Rightarrow> thermal + (bool \<times> thermal) \<Rightarrow> (Manager \<times> temp_fault) list" where
  "new_temp_errors s r = drop (length (temp_error_log s)) (temp_error_log (final_state r))"

text \<open>
  The invariant of the range checks of \<open>updateTemperaturesFromRawValues\<close>, between
  the state \<open>s0\<close> at the call and a later state \<open>s\<close>: every error logged since the
  call belongs to a heater whose target was positive at the call, and each target still
  has the value it had at the call or has been set to zero.
\<close>

definition errors_need_target :: "thermal \<Rightarrow> thermal \<Rightarrow> bool" where
  "errors_need_target s0 s =
     ((\<exists>new. temp_error_log s = temp_error_log s0 @ new
          \<and> (\<forall>e \<in> set new. (fst e = Hotend \<longrightarrow> 0 < target_temperature s0)
                           \<and> (fst e = Bed \<longrightarrow> 0 < target_temperature_bed s0)))
      \<and> (target_temperature s = target_temperature s0 \<or> target_temperature s = 0)
      \<and> (target_temperature_bed s = target_temperature_bed s0 \<or> target_temperature_bed s = 0))"


section \<open>Trapezoid generator (planner.h, Marlin_main.cpp)\<close>

text \<open>
  The rates and distances are \<open>float\<close>s in the source and reals here. A conversion of
  a \<open>float\<close> outside the range of its integer type is undefined in the source; the
  \<open>int32\<close> locals are integers, on which no overflow is modelled.
\<close>

definition MINIMAL_STEP_RATE :: uint32 where "MINIMAL_STEP_RATE = 120"

definition sq :: "real \<Rightarrow> real" where
  "sq x = x * x"

definition estimate_acceleration_distance :: "real \<Rightarrow> real \<Rightarrow> real \<Rightarrow> real" where
  "estimate_acceleration_distance rate0 target_rate accel =
     (if accel = 0 then 0 else (sq target_rate - sq rate0) / (accel * 2))"

definition intersection_distance :: "real \<Rightarrow> real \<Rightarrow> real \<Rightarrow> real \<Rightarrow> real" where
  "intersection_distance rate0 rate1 accel distance =
     (if accel = 0 then 0
      else (accel * 2 * distance - sq rate0 + sq rate1) / (accel * 4))"

text \<open>
  The parameters \<open>initial_rate\<close> and \<open>final_rate\<close> of the two functions above are
  \<open>rate0\<close> and \<open>rate1\<close>, the source's names being those of fields of a block.
\<close>

definition max_allowable_speed :: "config \<Rightarrow> real \<Rightarrow> real \<Rightarrow> real \<Rightarrow> real" where
  "max_allowable_speed cfg accel target_velocity distance =
     SQRT cfg (sq target_velocity - 2 * accel * distance)"

text \<open>
  \<open>Planner::calculate_trapezoid_for_block\<close>. \<open>trapezoid_steps\<close> is its first part,
  which computes the locals \<open>initial_rate\<close>, \<open>final_rate\<close> (both \<open>uint32\<close>),
  \<open>accelerate_steps\<close> and \<open>plateau_steps\<close> (both \<open>int32\<close>); the second part writes
  the block inside the critical section, unless the block is busy. The parameters
  \<open>entry_speed\<close> and \<open>next_entry_speed\<close> are \<open>entry\<close> and \<open>next_entry\<close>.
\<close>

record trapezoid =
  t_initial_rate :: uint32
  t_final_rate :: uint32
  t_accelerate_steps :: int
  t_plateau_steps :: int

definition trapezoid_steps :: "block_t \<Rightarrow> real \<Rightarrow> real \<Rightarrow> trapezoid" where
  "trapezoid_steps block entry next_entry =
     (let initial_rate = max (word_of_int \<lceil>entry\<rceil>) MINIMAL_STEP_RATE;
          final_rate = max (word_of_int \<lceil>next_entry\<rceil>) MINIMAL_STEP_RATE;
          accel = uint (acceleration_steps_per_s2 block);
          accelerate_steps =
            \<lceil>estimate_acceleration_distance (real_of_int (uint initial_rate))
                (real_of_int (uint (nominal_rate block))) (real_of_int accel)\<rceil>;
          decelerate_steps =
            \<lfloor>estimate_acceleration_distance (real_of_int (uint (nominal_rate block)))
                (real_of_int (uint final_rate)) (real_of_int (- accel))\<rfloor>;
          plateau_steps = uint (step_event_count block) - accelerate_steps - decelerate_steps
      in if plateau_steps < 0
         then \<lparr>t_initial_rate = initial_rate, t_final_rate = final_rate,
                t_accelerate_steps =
                  min (max \<lceil>intersection_distance (real_of_int (uint initial_rate))
                              (real_of_int (uint final_rate)) (real_of_int accel)
                              (real_of_int (uint (step_event_count block)))\<rceil> 0)
                      (uint (step_event_count block)),
                t_plateau_steps = 0\<rparr>
         else \<lparr>t_initial_rate = initial_rate, t_final_rate = final_rate,
                t_accelerate_steps = accelerate_steps, t_plateau_steps = plateau_steps\<rparr>)"

definition calculate_trapezoid_for_block :: "config \<Rightarrow> block_t \<Rightarrow> real \<Rightarrow> real \<Rightarrow> block_t" where
  "calculate_trapezoid_for_block cfg block entry next_entry =
     (let t = trapezoid_steps block entry next_entry;
          accel = uint (acceleration_steps_per_s2 block)
      in if \<not> TEST (flag block) BLOCK_BIT_BUSY
         then block\<lparr>accelerate_until := word_of_int (t_accelerate_steps t),
                     decelerate_after := word_of_int (t_accelerate_steps t + t_plateau_steps t),
                     initial_rate := ucast (t_initial_rate t),
                     final_rate := ucast (t_final_rate t),
                     acceleration_rate :=
                       word_of_int \<lfloor>real_of_int accel * 16777216 / (real (F_CPU cfg) * 0.125)\<rfloor>\<rparr>
         else block)"

section \<open>Look-ahead (Marlin_main.cpp)\<close>

text \<open>
  A loop over the ring ends when its index meets the head or the end index, which it
  need not do for indices outside the ring: the loops are partial functions, \<open>None\<close>
  when they do not end. A pointer to a block is the index of the block; the kernels are
  only called with a null \<open>previous\<close> or with both pointers set.
\<close>

definition reverse_pass_kernel :: "config \<Rightarrow> nat \<Rightarrow> nat \<Rightarrow> planner \<Rightarrow> planner" where
  "reverse_pass_kernel cfg current next p =
     (let cur = block_buffer p ! current;
          nxt = block_buffer p ! next
      in if entry_speed cur \<noteq> max_entry_speed cur
         then p\<lparr>block_buffer := (block_buffer p)[current :=
                  cur\<lparr>entry_speed :=
                         (if TEST (flag cur) BLOCK_BIT_NOMINAL_LENGTH
                             \<or> max_entry_speed cur \<le> entry_speed nxt
                          then max_entry_speed cur
                          else min (max_entry_speed cur)
                                   (max_allowable_speed cfg (- acceleration cur) (entry_speed nxt)
                                      (millimeters cur))),
                       flag := SBI (flag cur) BLOCK_BIT_RECALCULATE\<rparr>]\<rparr>
         else p)"

partial_function (option) reverse_pass_loop ::
  "config \<Rightarrow> uint8 \<Rightarrow> uint8 \<Rightarrow> planner \<Rightarrow> planner option" where
  "reverse_pass_loop cfg endnr blocknr p =
     (let next = unat blocknr;
          blocknr1 = prev_block_index cfg blocknr;
          current = unat blocknr1
      in if TEST (flag (block_buffer p ! current)) BLOCK_BIT_START_FROM_FULL_HALT then Some p
         else (let p1 = reverse_pass_kernel cfg current next p
               in if blocknr1 \<noteq> endnr then reverse_pass_loop cfg endnr blocknr1 p1
                  else Some p1))"

definition reverse_pass :: "config \<Rightarrow> planner \<Rightarrow> planner option" where
  "reverse_pass cfg p =
     (if 3 < unat (movesplanned cfg p)
      then reverse_pass_loop cfg (word_of_int (BLOCK_MOD cfg (uint (block_buffer_tail p) + 2)))
             (prev_block_index cfg (block_buffer_head p)) p
      else Some p)"

definition forward_pass_kernel ::
  "config \<Rightarrow> nat option \<Rightarrow> nat option \<Rightarrow> planner \<Rightarrow> planner" where
  "forward_pass_kernel cfg previous current p =
     (case (previous, current) of
        (Some previ, Some ci) \<Rightarrow>
          (let prv = block_buffer p ! previ;
               cur = block_buffer p ! ci
           in if \<not> TEST (flag prv) BLOCK_BIT_NOMINAL_LENGTH \<and> entry_speed prv < entry_speed cur
              then (let es = min (entry_speed cur)
                                 (max_allowable_speed cfg (- acceleration prv) (entry_speed prv)
                                    (millimeters prv))
                    in if entry_speed cur \<noteq> es
                       then p\<lparr>block_buffer := (block_buffer p)[ci :=
                                cur\<lparr>entry_speed := es,
                                     flag := SBI (flag cur) BLOCK_BIT_RECALCULATE\<rparr>]\<rparr>
                       else p)
              else p)
      | _ \<Rightarrow> p)"

partial_function (option) forward_pass_loop ::
  "config \<Rightarrow> uint8 \<Rightarrow> nat option \<Rightarrow> nat option \<Rightarrow> planner \<Rightarrow> planner option" where
  "forward_pass_loop cfg b block1 block2 p =
     (if b \<noteq> block_buffer_head p
      then forward_pass_loop cfg (next_block_index cfg b) block2 (Some (unat b))
             (forward_pass_kernel cfg block1 block2 p)
      else Some (forward_pass_kernel cfg block1 block2 p))"

definition forward_pass :: "config \<Rightarrow> planner \<Rightarrow> planner option" where
  "forward_pass cfg p = forward_pass_loop cfg (block_buffer_tail p) None None p"

definition trapezoid_at :: "config \<Rightarrow> nat \<Rightarrow> real \<Rightarrow> planner \<Rightarrow> planner" where
  "trapezoid_at cfg i exit_speed p =
     (let blk = block_buffer p ! i;
          blk1 = calculate_trapezoid_for_block cfg blk (entry_speed blk) exit_speed
      in p\<lparr>block_buffer := (block_buffer p)[i :=
             blk1\<lparr>flag := CBI (flag blk1) BLOCK_BIT_RECALCULATE\<rparr>]\<rparr>)"

partial_function (option) recalculate_trapezoids_loop ::
  "config \<Rightarrow> uint8 \<Rightarrow> nat option \<Rightarrow> planner \<Rightarrow> planner option" where
  "recalculate_trapezoids_loop cfg block_index next p =
     (if block_index \<noteq> block_buffer_head p
      then (let current = next;
                next1 = unat block_index;
                p1 = (case current of
                        None \<Rightarrow> p
                      | Some ci \<Rightarrow>
                          if TEST (flag (block_buffer p ! ci)) BLOCK_BIT_RECALCULATE
                             \<or> TEST (flag (block_buffer p ! next1)) BLOCK_BIT_RECALCULATE
                          then trapezoid_at cfg ci (entry_speed (block_buffer p ! next1)) p
                          else p)
            in recalculate_trapezoids_loop cfg (next_block_index cfg block_index) (Some next1) p1)
      else Some (case next of None \<Rightarrow> p | Some ni \<Rightarrow> trapezoid_at cfg ni 0 p))"

definition recalculate_trapezoids :: "config \<Rightarrow> planner \<Rightarrow> planner option" where
  "recalculate_trapezoids cfg p = recalculate_trapezoids_loop cfg (block_buffer_tail p) None p"

definition recalculate :: "config \<Rightarrow> planner \<Rightarrow> planner option" where
  "recalculate cfg p =
     Option.bind (reverse_pass cfg p) (\<lambda>p1.
       Option.bind (forward_pass cfg p1) (recalculate_trapezoids cfg))"

section \<open>Block builder (Marlin_main.cpp)\<close>

definition X_AXIS :: nat where "X_AXIS = 0"
definition Y_AXIS :: nat where "Y_AXIS = 1"
definition Z_AXIS :: nat where "Z_AXIS = 2"
definition E_AXIS :: nat where "E_AXIS = 3"

text \<open>
  What \<open>_buffer_line\<close> reads outside the planner: the debug flag \<open>DEBUGGING(DRYRUN)\<close>,
  \<open>Temperature::is_coldextrude()\<close>, the volumetric multiplier and the flow percentage
  of the extruder, the fan speeds, and whether the stepper interrupt is enabled
  (\<open>TEST(TIMSK1, OCIE1A)\<close>). \<open>idle\<close> is what one call of \<open>idle()\<close> does to the planner
  while the builder waits: the stepper interrupt retires blocks meanwhile.
\<close>

record move_env =
  DRYRUN :: bool
  is_coldextrude :: bool
  volumetric_multiplier :: real
  flow_percentage :: int
  fanSpeeds :: "uint8 list"
  stepper_isr_enabled :: bool
  idle :: "planner \<Rightarrow> planner"

text \<open>
  Modelled from the spec: the template \<open>round<uint24>\<close> and the macro \<open>LROUND\<close> are
  not part of the sources. The spec converts the target in mm to integer steps; the
  arguments are not negative, where rounding to the nearest integer is
  \<open>floor (x + 1/2)\<close>.
\<close>

definition round_uint24 :: "real \<Rightarrow> uint24" where
  "round_uint24 x = word_of_int \<lfloor>x + 1 / 2\<rfloor>"

definition LROUND :: "real \<Rightarrow> int" where
  "LROUND x = \<lfloor>x + 1 / 2\<rfloor>"

text \<open>
  The first part of \<open>_buffer_line\<close>, up to the step counts of the new block, in the
  order of the source: the target in steps (\<open>buffer_line_target\<close>); the deltas of X, Y
  and Z; the E position and the E delta after the dry-run, cold-extrusion and
  lengthy-extrusion guards (\<open>extruder_guards\<close>); the direction bits
  (\<open>direction_mask\<close>); and the step counts. The parameter \<open>e\<close> of the source is
  \<open>e_mm\<close>. The cast \<open>(int32)\<close> of the steps per mm of the extruder, a positive
  number, is its floor.
\<close>

definition buffer_line_target :: "planner \<Rightarrow> real \<Rightarrow> real \<Rightarrow> real \<Rightarrow> real \<Rightarrow> uint24 list" where
  "buffer_line_target p a b c e_mm =
     [round_uint24 (a * axis_steps_per_mm p ! X_AXIS),
      round_uint24 (b * axis_steps_per_mm p ! Y_AXIS),
      round_uint24 (c * axis_steps_per_mm p ! Z_AXIS),
      round_uint24 (e_mm * axis_steps_per_mm p ! E_AXIS)]"

definition extruder_guards ::
  "config \<Rightarrow> move_env \<Rightarrow> planner \<Rightarrow> uint24 list \<Rightarrow> uint24 list \<times> int" where
  "extruder_guards cfg env p target =
     (let position1 = (if DRYRUN env then (position p)[E_AXIS := target ! E_AXIS]
                       else position p);
          de1 = sint (target ! E_AXIS - position1 ! E_AXIS);
          cold = (PREVENT_COLD_EXTRUSION cfg \<and> de1 \<noteq> 0 \<and> is_coldextrude env);
          position2 = (if cold then position1[E_AXIS := target ! E_AXIS] else position1);
          de2 = (if cold then 0 else de1);
          lengthy = (PREVENT_COLD_EXTRUSION cfg \<and> de1 \<noteq> 0 \<and> PREVENT_LENGTHY_EXTRUDE cfg
                     \<and> \<lfloor>axis_steps_per_mm p ! E_AXIS\<rfloor> * int (EXTRUDE_MAXLENGTH cfg) < \<bar>de2\<bar>)
      in if lengthy then (position2[E_AXIS := target ! E_AXIS], 0) else (position2, de2))"

definition direction_mask :: "int \<Rightarrow> int \<Rightarrow> int \<Rightarrow> int \<Rightarrow> uint8" where
  "direction_mask da db dc de =
     (let dm0 = (if da < 0 then SBI 0 X_AXIS else 0);
          dm1 = (if db < 0 then SBI dm0 Y_AXIS else dm0);
          dm2 = (if dc < 0 then SBI dm1 Z_AXIS else dm1)
      in if de < 0 then SBI dm2 E_AXIS else dm2)"

record line_steps =
  ls_target :: "uint24 list"
  ls_position :: "uint24 list"
  ls_da :: int
  ls_db :: int
  ls_dc :: int
  ls_de :: int
  ls_dm :: uint8
  ls_esteps_float :: real
  ls_esteps :: uint24
  ls_steps :: "uint24 list"
  ls_step_event_count :: uint24

definition buffer_line_steps ::
  "config \<Rightarrow> move_env \<Rightarrow> planner \<Rightarrow> real \<Rightarrow> real \<Rightarrow> real \<Rightarrow> real \<Rightarrow> line_steps" where
  "buffer_line_steps cfg env p a b c e_mm =
     (let target = buffer_line_target p a b c e_mm;
          da = sint (target ! X_AXIS - position p ! X_AXIS);
          db = sint (target ! Y_AXIS - position p ! Y_AXIS);
          dc = sint (target ! Z_AXIS - position p ! Z_AXIS);
          g = extruder_guards cfg env p target;
          de = snd g;
          esteps_float = real_of_int de * volumetric_multiplier env
                           * real_of_int (flow_percentage env) * 0.01;
          esteps = word_of_int \<lfloor>\<bar>esteps_float\<bar> + 0.5\<rfloor>;
          stp = [word_of_int \<bar>da\<bar>, word_of_int \<bar>db\<bar>, word_of_int \<bar>dc\<bar>, esteps]
      in \<lparr>ls_target = target, ls_position = fst g,
           ls_da = da, ls_db = db, ls_dc = dc, ls_de = de,
           ls_dm = direction_mask da db dc de,
           ls_esteps_float = esteps_float, ls_esteps = esteps, ls_steps = stp,
           ls_step_event_count =
             max (max (stp ! X_AXIS) (stp ! Y_AXIS)) (max (stp ! Z_AXIS) esteps)\<rparr>)"

text \<open>\<open>while (block_buffer_tail == next_buffer_head) idle();\<close>\<close>

partial_function (option) wait_for_free_block ::
  "(planner \<Rightarrow> planner) \<Rightarrow> uint8 \<Rightarrow> planner \<Rightarrow> planner option" where
  "wait_for_free_block idle_call next_buffer_head p =
     (if block_buffer_tail p = next_buffer_head
      then wait_for_free_block idle_call next_buffer_head (idle_call p)
      else Some p)"

text \<open>The macros \<open>LIMIT_ACCEL_LONG\<close> and \<open>LIMIT_ACCEL_FLOAT\<close> of \<open>_buffer_line\<close>.\<close>

definition LIMIT_ACCEL_LONG :: "planner \<Rightarrow> block_t \<Rightarrow> nat \<Rightarrow> uint32 \<Rightarrow> uint32" where
  "LIMIT_ACCEL_LONG p block axis accel =
     (if steps block ! axis \<noteq> 0 \<and> max_acceleration_steps_per_s2 p ! axis < accel
      then (let comp = max_acceleration_steps_per_s2 p ! axis * ucast (step_event_count block)
            in if comp < accel * ucast (steps block ! axis)
               then comp div ucast (steps block ! axis) else accel)
      else accel)"

definition LIMIT_ACCEL_FLOAT :: "planner \<Rightarrow> block_t \<Rightarrow> nat \<Rightarrow> uint32 \<Rightarrow> uint32" where
  "LIMIT_ACCEL_FLOAT p block axis accel =
     (if steps block ! axis \<noteq> 0 \<and> max_acceleration_steps_per_s2 p ! axis < accel
      then (let comp = real (unat (max_acceleration_steps_per_s2 p ! axis))
                         * real (unat (step_event_count block))
            in if comp < real (unat accel) * real (unat (steps block ! axis))
               then word_of_int \<lfloor>comp / real (unat (steps block ! axis))\<rfloor> else accel)
      else accel)"

text \<open>
  The safe speed: the loop over the axes that starts from the nominal speed. The state of
  the loop is \<open>safe_speed\<close> and \<open>limited\<close>.
\<close>

definition safe_speed_axis :: "planner \<Rightarrow> real \<Rightarrow> real list \<Rightarrow> nat \<Rightarrow> real \<times> nat \<Rightarrow> real \<times> nat" where
  "safe_speed_axis p nominal current_speed i st =
     (let jerk = \<bar>current_speed ! i\<bar>;
          maxj = max_jerk p ! i
      in if maxj < jerk
         then (if snd st \<noteq> 0
               then (let mjerk = maxj * nominal
                     in if mjerk < jerk * fst st then (mjerk / jerk, snd st) else st)
               else (maxj, snd st + 1))
         else st)"

definition safe_speed_loop :: "planner \<Rightarrow> real \<Rightarrow> real list \<Rightarrow> real" where
  "safe_speed_loop p nominal current_speed =
     fst (fold (safe_speed_axis p nominal current_speed) [X_AXIS, Y_AXIS, Z_AXIS, E_AXIS]
            (nominal, 0))"

text \<open>
  The junction speed with the previous block: the loop over the axes, with the state
  \<open>v_factor\<close> and \<open>limited\<close>, and the code around it. The result is \<open>vmax_junction\<close>
  and whether \<open>BLOCK_BIT_START_FROM_FULL_HALT\<close> is set.
\<close>

definition junction_axis ::
  "planner \<Rightarrow> bool \<Rightarrow> real \<Rightarrow> real list \<Rightarrow> nat \<Rightarrow> real \<times> nat \<Rightarrow> real \<times> nat" where
  "junction_axis p prev_speed_larger smaller_speed_factor current_speed axis st =
     (let v_exit0 = previous_speed p ! axis;
          v_entry0 = current_speed ! axis;
          v_exit1 = (if prev_speed_larger then v_exit0 * smaller_speed_factor else v_exit0);
          v_exit = (if snd st \<noteq> 0 then v_exit1 * fst st else v_exit1);
          v_entry = (if snd st \<noteq> 0 then v_entry0 * fst st else v_entry0);
          jerk = (if v_entry < v_exit
                  then (if 0 < v_entry \<or> v_exit < 0 then v_exit - v_entry
                        else max v_exit (- v_entry))
                  else (if v_entry < 0 \<or> 0 < v_exit then v_entry - v_exit
                        else max (- v_exit) v_entry))
      in if max_jerk p ! axis < jerk
         then (fst st * (max_jerk p ! axis / jerk), snd st + 1)
         else st)"

definition junction_speed ::
  "planner \<Rightarrow> uint8 \<Rightarrow> real \<Rightarrow> real list \<Rightarrow> real \<Rightarrow> real \<times> bool" where
  "junction_speed p moves_queued nominal current_speed safe_speed =
     (if 1 < moves_queued \<and> 0.0001 < previous_nominal_speed p
      then (let prev_speed_larger = (nominal < previous_nominal_speed p);
                smaller_speed_factor =
                  (if prev_speed_larger then nominal / previous_nominal_speed p
                   else previous_nominal_speed p / nominal);
                vmax0 = (if prev_speed_larger then nominal else previous_nominal_speed p);
                st = fold (junction_axis p prev_speed_larger smaller_speed_factor current_speed)
                       [X_AXIS, Y_AXIS, Z_AXIS, E_AXIS] (1, 0);
                vmax1 = (if snd st \<noteq> 0 then vmax0 * fst st else vmax0);
                vmax_junction_threshold = vmax1 * 0.99
            in if vmax_junction_threshold < previous_safe_speed p
                  \<and> vmax_junction_threshold < safe_speed
               then (safe_speed, True) else (vmax1, False))
      else (safe_speed, True))"

text \<open>
  The second part of \<open>_buffer_line\<close>, from the zero-length check to the acceleration
  of the block, in the order of the source. Its steps are: the feedrate raised to the
  minimum (\<open>feedrate_floor\<close>); the deltas in mm and the length of the move
  (\<open>move_delta_mm\<close>, \<open>move_millimeters\<close>); the segment time and the slowdown when
  the buffer runs empty (\<open>slowdown_inverse_mm_s\<close>, \<open>slowdown_segment_time\<close>); the speed
  factor that keeps every axis within its maximum feedrate (\<open>speed_factor_loop\<close>); and
  the acceleration in steps, limited per axis (\<open>block_accel\<close>).
\<close>

definition feedrate_floor :: "planner \<Rightarrow> uint24 \<Rightarrow> real \<Rightarrow> real" where
  "feedrate_floor p esteps fr =
     (if esteps \<noteq> 0 \<and> fr < min_feedrate_mm_s p then min_feedrate_mm_s p
      else if esteps = 0 \<and> fr < min_travel_feedrate_mm_s p then min_travel_feedrate_mm_s p
      else fr)"

definition move_delta_mm :: "planner \<Rightarrow> line_steps \<Rightarrow> real list" where
  "move_delta_mm p ls =
     [real_of_int (ls_da ls) * steps_to_mm p ! X_AXIS,
      real_of_int (ls_db ls) * steps_to_mm p ! Y_AXIS,
      real_of_int (ls_dc ls) * steps_to_mm p ! Z_AXIS,
      ls_esteps_float ls * steps_to_mm p ! E_AXIS]"

definition move_millimeters :: "config \<Rightarrow> block_t \<Rightarrow> real list \<Rightarrow> real" where
  "move_millimeters cfg block delta_mm =
     (if unat (steps block ! X_AXIS) < MIN_STEPS_PER_SEGMENT cfg
         \<and> unat (steps block ! Y_AXIS) < MIN_STEPS_PER_SEGMENT cfg
         \<and> unat (steps block ! Z_AXIS) < MIN_STEPS_PER_SEGMENT cfg
      then \<bar>delta_mm ! E_AXIS\<bar>
      else SQRT cfg (sq (delta_mm ! X_AXIS) + sq (delta_mm ! Y_AXIS) + sq (delta_mm ! Z_AXIS)))"

definition slowdown_applies :: "config \<Rightarrow> planner \<Rightarrow> uint8 \<Rightarrow> real \<Rightarrow> bool" where
  "slowdown_applies cfg p moves_queued inverse_mm_s0 =
     (SLOWDOWN cfg \<and> 2 \<le> unat moves_queued
      \<and> int (unat moves_queued) \<le> int (BLOCK_BUFFER_SIZE cfg div 2) - 1
      \<and> LROUND (1000000 / inverse_mm_s0) < uint (min_segment_time p))"

definition slowdown_inverse_mm_s :: "config \<Rightarrow> planner \<Rightarrow> uint8 \<Rightarrow> real \<Rightarrow> real" where
  "slowdown_inverse_mm_s cfg p moves_queued inverse_mm_s0 =
     (let segment_time = LROUND (1000000 / inverse_mm_s0)
      in if slowdown_applies cfg p moves_queued inverse_mm_s0
         then 1000000 / real_of_int (segment_time
                + (2 * (uint (min_segment_time p) - segment_time)) div uint moves_queued)
         else inverse_mm_s0)"

definition slowdown_segment_time :: "config \<Rightarrow> planner \<Rightarrow> uint8 \<Rightarrow> real \<Rightarrow> int" where
  "slowdown_segment_time cfg p moves_queued inverse_mm_s0 =
     (if slowdown_applies cfg p moves_queued inverse_mm_s0 \<and> ULTRA_LCD cfg
      then LROUND (1000000 / slowdown_inverse_mm_s cfg p moves_queued inverse_mm_s0)
      else LROUND (1000000 / inverse_mm_s0))"

definition speed_factor_axis :: "planner \<Rightarrow> real list \<Rightarrow> nat \<Rightarrow> real \<Rightarrow> real" where
  "speed_factor_axis p current_speed i speed_factor =
     (let cs = \<bar>current_speed ! i\<bar>
      in if max_feedrate_mm_s p ! i < cs
         then min speed_factor (max_feedrate_mm_s p ! i / cs) else speed_factor)"

definition speed_factor_loop :: "planner \<Rightarrow> real list \<Rightarrow> real" where
  "speed_factor_loop p current_speed =
     fold (speed_factor_axis p current_speed) [X_AXIS, Y_AXIS, Z_AXIS, E_AXIS] 1"

definition block_accel :: "planner \<Rightarrow> block_t \<Rightarrow> uint24 \<Rightarrow> real \<Rightarrow> uint32" where
  "block_accel p block esteps steps_per_mm =
     (if steps block ! X_AXIS = 0 \<and> steps block ! Y_AXIS = 0 \<and> steps block ! Z_AXIS = 0
      then word_of_int \<lceil>retract_acceleration p * steps_per_mm\<rceil>
      else (let accel0 = (word_of_int
                   \<lceil>(if esteps \<noteq> 0 then acceleration_mm_s2 p else travel_acceleration p)
                      * steps_per_mm\<rceil> :: uint32)
            in if ucast (step_event_count block) \<le> cutoff_long p
               then LIMIT_ACCEL_LONG p block E_AXIS
                      (LIMIT_ACCEL_LONG p block Z_AXIS
                        (LIMIT_ACCEL_LONG p block Y_AXIS
                          (LIMIT_ACCEL_LONG p block X_AXIS accel0)))
               else LIMIT_ACCEL_FLOAT p block E_AXIS
                      (LIMIT_ACCEL_FLOAT p block Z_AXIS
                        (LIMIT_ACCEL_FLOAT p block Y_AXIS
                          (LIMIT_ACCEL_FLOAT p block X_AXIS accel0)))))"

text \<open>
  \<open>p\<close> is the planner after the wait, \<open>block0\<close> the new block with its step counts,
  \<open>fr\<close> the parameter \<open>fr_mm_s\<close>. The result holds the planner (whose accumulated run
  time grows with \<open>ULTRA_LCD\<close>), the block with its length, nominal speed and rate and
  acceleration, and the locals \<open>current_speed\<close> and \<open>moves_queued\<close>. The enabling of
  the stepper drivers is not part of the planner state.
\<close>

record kinematics =
  k_planner :: planner
  k_block :: block_t
  k_current_speed :: "real list"
  k_moves_queued :: uint8

definition buffer_line_kinematics ::
  "config \<Rightarrow> move_env \<Rightarrow> planner \<Rightarrow> line_steps \<Rightarrow> block_t \<Rightarrow> real \<Rightarrow> kinematics" where
  "buffer_line_kinematics cfg env p ls block0 fr =
     (let block1 = block0\<lparr>fan_speed := fanSpeeds env\<rparr>;
          fr_mm_s = feedrate_floor p (ls_esteps ls) fr;
          delta_mm = move_delta_mm p ls;
          mm = move_millimeters cfg block1 delta_mm;
          inverse_millimeters = 1 / mm;
          moves_queued = movesplanned cfg p;
          inverse_mm_s = slowdown_inverse_mm_s cfg p moves_queued (fr_mm_s * inverse_millimeters);
          segment_time = slowdown_segment_time cfg p moves_queued (fr_mm_s * inverse_millimeters);
          p1 = (if ULTRA_LCD cfg
                then p\<lparr>block_buffer_runtime_us :=
                         block_buffer_runtime_us p + word_of_int segment_time\<rparr>
                else p);
          nominal_rate0 = (word_of_int \<lceil>real (unat (step_event_count block1)) * inverse_mm_s\<rceil>
                           :: uint24);
          current_speed0 = map (\<lambda>d. d * inverse_mm_s) delta_mm;
          speed_factor = speed_factor_loop p current_speed0;
          steps_per_mm = real (unat (step_event_count block1)) * inverse_millimeters;
          accel = block_accel p block1 (ls_esteps ls) steps_per_mm
      in \<lparr>k_planner = p1,
           k_block = block1\<lparr>millimeters := mm,
                            nominal_speed := (if speed_factor < 1 then mm * inverse_mm_s * speed_factor
                                              else mm * inverse_mm_s),
                            nominal_rate := (if speed_factor < 1
                                             then word_of_int \<lfloor>real (unat nominal_rate0) * speed_factor\<rfloor>
                                             else nominal_rate0),
                            acceleration_steps_per_s2 := ucast accel,
                            acceleration := real (unat accel) / steps_per_mm\<rparr>,
           k_current_speed = (if speed_factor < 1 then map (\<lambda>v. v * speed_factor) current_speed0
                              else current_speed0),
           k_moves_queued = moves_queued\<rparr>)"

text \<open>
  The third part of \<open>_buffer_line\<close>, from the safe speed to the update of the position.
  The result holds the planner with the block published, and the values of the locals
  \<open>vmax_junction\<close>, \<open>v_allowable\<close>, \<open>safe_speed\<close> and \<open>current_speed\<close>.
\<close>

record admitted =
  ad_planner :: planner
  ad_vmax_junction :: real
  ad_v_allowable :: real
  ad_safe_speed :: real
  ad_current_speed :: "real list"

definition buffer_line_admit ::
  "config \<Rightarrow> move_env \<Rightarrow> planner \<Rightarrow> line_steps \<Rightarrow> block_t \<Rightarrow> uint8 \<Rightarrow> real \<Rightarrow> admitted" where
  "buffer_line_admit cfg env p ls block0 next_buffer_head fr =
     (let k = buffer_line_kinematics cfg env p ls block0 fr;
          p1 = k_planner k;
          block2 = k_block k;
          current_speed = k_current_speed k;
          safe_speed = safe_speed_loop p (nominal_speed block2) current_speed;
          j = junction_speed p (k_moves_queued k) (nominal_speed block2) current_speed safe_speed;
          vmax_junction = fst j;
          block3 = (if snd j
                    then block2\<lparr>flag := SBI (flag block2) BLOCK_BIT_START_FROM_FULL_HALT\<rparr>
                    else block2);
          v_allowable = max_allowable_speed cfg (- acceleration block3) 0 (millimeters block3);
          block4 = block3\<lparr>max_entry_speed := vmax_junction,
                          entry_speed := (if stepper_isr_enabled env then 0
                                          else min vmax_junction v_allowable)\<rparr>;
          block5 = block4\<lparr>flag := flag block4 OR
                            (if nominal_speed block4 \<le> v_allowable
                             then push_bit BLOCK_BIT_RECALCULATE 1 OR push_bit BLOCK_BIT_NOMINAL_LENGTH 1
                             else push_bit BLOCK_BIT_RECALCULATE 1)\<rparr>;
          p2 = p1\<lparr>block_buffer := (block_buffer p1)[unat (block_buffer_head p1) := block5],
                   previous_speed := current_speed,
                   previous_nominal_speed := nominal_speed block5,
                   previous_safe_speed := safe_speed\<rparr>;
          p3 = p2\<lparr>block_buffer_head := next_buffer_head, position := ls_target ls\<rparr>
      in \<lparr>ad_planner = p3, ad_vmax_junction = vmax_junction, ad_v_allowable = v_allowable,
           ad_safe_speed = safe_speed, ad_current_speed = current_speed\<rparr>)"

text \<open>
  \<open>Planner::_buffer_line\<close>. The result is the planner when the call returns; \<open>None\<close> if it
  never does, which is when the wait for a free block or a loop of \<open>recalculate\<close> does
  not end. The parameter \<open>e\<close> of the source is \<open>e_mm\<close>. \<open>stepper.wake_up()\<close> does not
  touch the planner.
\<close>

definition new_block :: "line_steps \<Rightarrow> planner \<Rightarrow> block_t" where
  "new_block ls p =
     (block_buffer p ! unat (block_buffer_head p))
       \<lparr>flag := 0, direction_bits := ls_dm ls, steps := ls_steps ls,
        step_event_count := ls_step_event_count ls\<rparr>"

definition Planner_buffer_line ::
  "config \<Rightarrow> move_env \<Rightarrow> planner \<Rightarrow> real \<Rightarrow> real \<Rightarrow> real \<Rightarrow> real \<Rightarrow> real \<Rightarrow> uint8
     \<Rightarrow> planner option" where
  "Planner_buffer_line cfg env p a b c e_mm fr_mm_s extruder =
     (let ls = buffer_line_steps cfg env p a b c e_mm;
          p1 = p\<lparr>position := ls_position ls\<rparr>;
          next_buffer_head = next_block_index cfg (block_buffer_head p1)
      in case wait_for_free_block (idle env) next_buffer_head p1 of
           None \<Rightarrow> None
         | Some p2 \<Rightarrow>
             (let block = new_block ls p2;
                  p3 = p2\<lparr>block_buffer :=
                          (block_buffer p2)[unat (block_buffer_head p2) := block]\<rparr>
              in if unat (step_event_count block) < MIN_STEPS_PER_SEGMENT cfg then Some p3
                 else recalculate cfg
                        (ad_planner (buffer_line_admit cfg env p3 ls block next_buffer_head fr_mm_s))))"

section \<open>Example configurations and states\<close>

text \<open>
  A thermistor whose reading falls as the temperature rises, with sixteen raw units to
  the degree: 275 degrees is the reading 1600, 5 degrees the reading 18880.
\<close>

definition env_ex :: thermal_env where
  "env_ex = \<lparr>TEMP_ONE = 16,
     adc_to_temperature = (\<lambda>raw. 4800 - uint raw div 4),
     clamp_adc = (\<lambda>raw. raw),
     get_power = (\<lambda>current target. if current < target then 255 else 0),
     HEATER_0_RAW_LO_TEMP = 16383, HEATER_0_RAW_HI_TEMP = 0,
     HEATER_BED_RAW_LO_TEMP = 16383, HEATER_BED_RAW_HI_TEMP = 0,
     Hotend_max_temperature_Adc = 1600, Hotend_min_temperature_Adc = 18880,
     Bed_max_temperature_Adc = 11520, Bed_min_temperature_Adc = 18880,
     HEATER_0_MAXTEMP = 275, HEATER_0_MINTEMP = 5, BED_MAXTEMP = 120, BED_MINTEMP = 5,
     WATCH_TEMP_INCREASE = 2, TEMP_HYSTERESIS = 3, WATCH_TEMP_PERIOD = 20,
     WATCH_BED_TEMP_INCREASE = 2, TEMP_BED_HYSTERESIS = 2, WATCH_BED_TEMP_PERIOD = 60,
     THERMAL_PROTECTION_PERIOD = 40, THERMAL_PROTECTION_HYSTERESIS = 4,
     THERMAL_PROTECTION_BED_PERIOD = 20, THERMAL_PROTECTION_BED_HYSTERESIS = 2,
     MAX_BED_POWER = 255, OVERSAMPLENR = 16,
     BOGUS_TEMPERATURE_FAILSAFE_OVERRIDE = False\<rparr>"

text \<open>The controller as its static initialisers leave it, at 20 degrees.\<close>

definition thermal_ex :: thermal where
  "thermal_ex = \<lparr>Running = True, killed = False, temp_error_log = [],
     current_temperature = 320, current_temperature_bed = 320,
     target_temperature = 0, target_temperature_bed = 0,
     watch_target_temp = 0, watch_heater_next_ms = 0,
     watch_target_bed_temp = 0, watch_bed_next_ms = 0,
     soft_pwm_amount = 0, is_bed_heating = False,
     ready_flag = False, raw_adc_hotend = 0, raw_adc_bed = 0,
     m_Positive = True, m_MeanSum = 0,
     thermal_runaway_state_machine = TRInactive, thermal_runaway_timer = 0,
     thermal_runaway_bed_state_machine = TRInactive, thermal_runaway_bed_timer = 0,
     tr_target_temperature_hotend = 0, tr_target_temperature_bed = 0,
     autotemp_enabled = False, print_job_timer_running = True,
     steppers_enabled = True, interrupts_enabled = True,
     HEATER_0 = False, HEATER_BED = False, wdr_count = 0,
     adc_sensor_state = initialize_hotend, local_raw_adc_hotend = 0, local_raw_adc_bed = 0,
     skip_counter = 0, pwm_counter = 0\<rparr>"

text \<open>
  The hotend heating towards 200 degrees and stuck at 180 degrees (the reading 7680), its
  runaway state machine in \<open>TRStable\<close> with a timer that expired long ago; the bed at
  20 degrees (the reading 17920) with no target. A fresh pair of readings is ready.
\<close>

definition thermal_stuck :: thermal where
  "thermal_stuck = thermal_ex\<lparr>current_temperature := 2880, target_temperature := 3200,
     soft_pwm_amount := 255, ready_flag := True, raw_adc_hotend := 7680, raw_adc_bed := 17920,
     thermal_runaway_state_machine := TRStable, thermal_runaway_timer := 1000,
     tr_target_temperature_hotend := 3200\<rparr>"

text \<open>
  A planner with a ring of four blocks, of which the first two are queued. The block
  \<open>block_ex\<close> is a move of 800 steps along X that has not been through the trapezoid
  generator yet.
\<close>

definition cfg_ex :: config where
  "cfg_ex = \<lparr>BLOCK_BUFFER_SIZE = 4, MIN_STEPS_PER_SEGMENT = 6, ULTRA_LCD = False,
     SLOWDOWN = True, PREVENT_COLD_EXTRUSION = True, PREVENT_LENGTHY_EXTRUDE = True,
     EXTRUDE_MAXLENGTH = 425, F_CPU = 16000000, SQRT = sqrt\<rparr>"

definition block_ex :: block_t where
  "block_ex = \<lparr>flag = 0, active_extruder = 0, steps = [800, 0, 0, 0], step_event_count = 800,
     accelerate_until = 0, decelerate_after = 0, acceleration_rate = 0, direction_bits = 0,
     nominal_speed = 60, entry_speed = 0, max_entry_speed = 10, millimeters = 10,
     acceleration = 1000, nominal_rate = 4800, initial_rate = 0, final_rate = 0,
     acceleration_steps_per_s2 = 80000, fan_speed = [0], segment_time = 0\<rparr>"

definition planner_ex :: planner where
  "planner_ex = \<lparr>block_buffer = [block_ex, block_ex, block_ex, block_ex],
     block_buffer_head = 2, block_buffer_tail = 0,
     max_feedrate_mm_s = [300, 300, 5, 25], axis_steps_per_mm = [80, 80, 400, 100],
     steps_to_mm = [1 / 80, 1 / 80, 1 / 400, 1 / 100],
     max_acceleration_steps_per_s2 = [120000, 120000, 40000, 1000000],
     min_segment_time = 20000, min_feedrate_mm_s = 0.05, acceleration_mm_s2 = 1000,
     retract_acceleration = 1000, travel_acceleration = 1000, max_jerk = [10, 10, 0.4, 5],
     min_travel_feedrate_mm_s = 0, position = [0, 0, 0, 0], previous_speed = [0, 0, 0, 0],
     previous_nominal_speed = 0, cutoff_long = 35791, block_buffer_runtime_us = 0,
     previous_safe_speed = 0\<rparr>"

text \<open>
  A slow move: 100 steps along X (1.25 mm at 80 steps per mm) at 0.625 mm/s, which is
  a nominal rate of 50 steps per second, below \<open>MINIMAL_STEP_RATE\<close>.
\<close>

definition block_slow :: block_t where
  "block_slow = block_ex\<lparr>steps := [100, 0, 0, 0], step_event_count := 100,
     nominal_speed := 0.625, millimeters := 1.25, nominal_rate := 50\<rparr>"


text \<open>
  The surroundings of a move: no dry run, a hot nozzle, unit flow, the stepper interrupt
  enabled as it is while the machine runs, and a stepper that retires the tail block
  during every call of \<open>idle()\<close>.
\<close>

definition move_env_ex :: move_env where
  "move_env_ex = \<lparr>DRYRUN = False, is_coldextrude = False, volumetric_multiplier = 1,
     flow_percentage = 100, fanSpeeds = [0], stepper_isr_enabled = True,
     idle = discard_current_block cfg_ex\<rparr>"

text \<open>
  An extruder-only move of 1 mm at 5 mm/s, admitted to \<open>planner_ex\<close>: the result of
  the block builder before the look-ahead runs.
\<close>

definition e_move_admitted :: admitted where
  "e_move_admitted =
     (let ls = buffer_line_steps cfg_ex move_env_ex planner_ex 0 0 0 1;
          block = new_block ls planner_ex;
          p3 = planner_ex\<lparr>block_buffer :=
                  (block_buffer planner_ex)[unat (block_buffer_head planner_ex) := block]\<rparr>
      in buffer_line_admit cfg_ex move_env_ex p3 ls block
           (next_block_index cfg_ex (block_buffer_head planner_ex)) 5)"

section \<open>Properties of the ring buffer\<close>

lemma BLOCK_MOD_eq_mod:
  assumes "BLOCK_BUFFER_SIZE cfg = 2 ^ k"
  shows "BLOCK_MOD cfg n = n mod 2 ^ k"
  unfolding BLOCK_MOD_def using assms
  by (simp add: take_bit_eq_mod [symmetric] take_bit_eq_mask mask_eq_exp_minus_1)

lemma planner_ok_size:
  assumes "planner_ok cfg p"
  obtains k where "BLOCK_BUFFER_SIZE cfg = 2 ^ k" and "1 \<le> k" and "k \<le> 7"
proof -
  from assms have "BLOCK_BUFFER_SIZE cfg \<in> {2 ^ 1, 2 ^ 2, 2 ^ 3, 2 ^ 4, 2 ^ 5, 2 ^ 6, 2 ^ 7}"
    by (simp add: planner_ok_def)
  then consider "BLOCK_BUFFER_SIZE cfg = 2 ^ 1" | "BLOCK_BUFFER_SIZE cfg = 2 ^ 2"
    | "BLOCK_BUFFER_SIZE cfg = 2 ^ 3" | "BLOCK_BUFFER_SIZE cfg = 2 ^ 4"
    | "BLOCK_BUFFER_SIZE cfg = 2 ^ 5" | "BLOCK_BUFFER_SIZE cfg = 2 ^ 6"
    | "BLOCK_BUFFER_SIZE cfg = 2 ^ 7"
    by blast
  then show thesis
    by cases (rule that, assumption, simp, simp)+
qed

lemma BLOCK_MOD_ok:
  assumes "planner_ok cfg p"
  shows "BLOCK_MOD cfg n = n mod int (BLOCK_BUFFER_SIZE cfg)"
proof -
  from assms obtain k where k: "BLOCK_BUFFER_SIZE cfg = 2 ^ k"
    by (rule planner_ok_size)
  show ?thesis by (simp add: BLOCK_MOD_eq_mod [OF k] k)
qed

lemma planner_ok_le:
  assumes "planner_ok cfg p"
  shows "0 < BLOCK_BUFFER_SIZE cfg" and "BLOCK_BUFFER_SIZE cfg \<le> 128"
  using assms by (auto simp: planner_ok_def)

lemma sint_small:
  fixes w :: uint8
  assumes "uint w < 128"
  shows "sint w = uint w"
proof -
  have "signed_take_bit 7 (uint w) = uint w"
  proof (rule signed_take_bit_int_eq_self)
    have "- (2 ^ 7) \<le> (0::int)" by simp
    also have "0 \<le> uint w" by simp
    finally show "- (2 ^ 7) \<le> uint w" .
    show "uint w < 2 ^ 7" using assms by simp
  qed
  then show ?thesis by (simp add: sint_uint)
qed

lemma uint8_of_small:
  assumes "0 \<le> n" and "n < 128"
  shows "uint (word_of_int n :: uint8) = n"
  using assms by (simp add: uint_word_of_int take_bit_int_eq_self)

lemma mod_size_bounds:
  assumes "0 < (S::nat)" and "S \<le> 128"
  shows "0 \<le> n mod int S" and "n mod int S < 128"
proof -
  show "0 \<le> n mod int S" by (rule pos_mod_sign) (use assms in simp)
  have "n mod int S < int S" by (rule pos_mod_bound) (use assms in simp)
  then show "n mod int S < 128" using assms by linarith
qed

lemma next_block_index_ok:
  assumes ok: "planner_ok cfg p"
  shows "nat (sint (next_block_index cfg (block_buffer_tail p))) =
           (unat (block_buffer_tail p) + 1) mod BLOCK_BUFFER_SIZE cfg"
proof -
  let ?S = "BLOCK_BUFFER_SIZE cfg"
  let ?t = "block_buffer_tail p"
  have S: "0 < ?S" "?S \<le> 128" using planner_ok_le [OF ok] .
  have t: "unat ?t < ?S" using ok by (simp add: planner_ok_def)
  have "uint ?t = int (unat ?t)" by simp
  also have "\<dots> < 128" using t S by linarith
  finally have st: "sint ?t = uint ?t" by (rule sint_small)
  let ?m = "(uint ?t + 1) mod int ?S"
  note m = mod_size_bounds [OF S, of "uint ?t + 1"]
  have um: "uint (word_of_int ?m :: uint8) = ?m" by (rule uint8_of_small [OF m])
  have "next_block_index cfg ?t = word_of_int ?m"
    by (simp only: next_block_index_def BLOCK_MOD_ok [OF ok] st)
  then have "sint (next_block_index cfg ?t) = sint (word_of_int ?m :: uint8)" by simp
  also have "\<dots> = uint (word_of_int ?m :: uint8)"
    by (rule sint_small) (simp only: um m)
  also have "\<dots> = ?m" by (rule um)
  finally have sm: "sint (next_block_index cfg ?t) = ?m" .
  have "?m = int ((unat ?t + 1) mod ?S)"
    by (simp add: zmod_int add.commute)
  then show ?thesis by (simp only: sm nat_int)
qed

lemma movesplanned_ok:
  assumes ok: "planner_ok cfg p"
  shows "uint (movesplanned cfg p) =
           (uint (block_buffer_head p) - uint (block_buffer_tail p)) mod int (BLOCK_BUFFER_SIZE cfg)"
proof -
  let ?S = "BLOCK_BUFFER_SIZE cfg"
  have S: "0 < ?S" "?S \<le> 128" using planner_ok_le [OF ok] .
  let ?d = "uint (block_buffer_head p) - uint (block_buffer_tail p)"
  note m = mod_size_bounds [OF S, of ?d]
  have "movesplanned cfg p = word_of_int ((?d + int ?S) mod int ?S)"
    by (simp only: movesplanned_def BLOCK_MOD_ok [OF ok])
  also have "(?d + int ?S) mod int ?S = ?d mod int ?S" by simp
  finally show ?thesis by (simp only: uint8_of_small [OF m])
qed

lemma TEST_SBI_same:
  assumes "b < 8"
  shows "TEST (SBI x b) b"
proof -
  have "bit (SBI x b) b" using assms by (simp add: SBI_def bit_simps)
  then show ?thesis by (simp add: TEST_def bit_iff_and_drop_bit_eq_1)
qed


text \<open>
  C3. In every state of the ring buffer, \<open>get_current_block\<close> returns null when the
  buffer is empty; it returns null when the tail block has \<open>RECALCULATE\<close> set, and
  when more than one move is queued and the successor of the tail block has
  \<open>RECALCULATE\<close> set; otherwise it returns the tail block, and the only change to the
  ring is that this block has its \<open>BUSY\<close> flag set.
\<close>

theorem get_current_block_spec:
  assumes ok: "planner_ok cfg p"
  shows
    "(block_buffer_head p = block_buffer_tail p \<longrightarrow> fst (get_current_block cfg p) = None)
   \<and> (block_buffer_head p \<noteq> block_buffer_tail p
        \<and> TEST (flag (block_buffer p ! unat (block_buffer_tail p))) BLOCK_BIT_RECALCULATE
      \<longrightarrow> fst (get_current_block cfg p) = None)
   \<and> (block_buffer_head p \<noteq> block_buffer_tail p \<and> 1 < unat (movesplanned cfg p)
        \<and> TEST (flag (block_buffer p !
                  ((unat (block_buffer_tail p) + 1) mod BLOCK_BUFFER_SIZE cfg))) BLOCK_BIT_RECALCULATE
      \<longrightarrow> fst (get_current_block cfg p) = None)
   \<and> (block_buffer_head p \<noteq> block_buffer_tail p
        \<and> \<not> TEST (flag (block_buffer p ! unat (block_buffer_tail p))) BLOCK_BIT_RECALCULATE
        \<and> (1 < unat (movesplanned cfg p) \<longrightarrow>
             \<not> TEST (flag (block_buffer p !
                  ((unat (block_buffer_tail p) + 1) mod BLOCK_BUFFER_SIZE cfg))) BLOCK_BIT_RECALCULATE)
      \<longrightarrow> fst (get_current_block cfg p) = Some (unat (block_buffer_tail p))
          \<and> block_buffer (snd (get_current_block cfg p)) =
              (block_buffer p)[unat (block_buffer_tail p) :=
                 (block_buffer p ! unat (block_buffer_tail p))
                   \<lparr>flag := SBI (flag (block_buffer p ! unat (block_buffer_tail p))) BLOCK_BIT_BUSY\<rparr>]
          \<and> TEST (flag (block_buffer (snd (get_current_block cfg p)) ! unat (block_buffer_tail p)))
                 BLOCK_BIT_BUSY)"
proof -
  let ?t = "unat (block_buffer_tail p)"
  let ?n = "(unat (block_buffer_tail p) + 1) mod BLOCK_BUFFER_SIZE cfg"
  let ?R = "\<lambda>i. TEST (flag (block_buffer p ! i)) BLOCK_BIT_RECALCULATE"
  have len: "?t < length (block_buffer p)"
    using ok by (simp add: planner_ok_def)
  have busy: "TEST (SBI x BLOCK_BIT_BUSY) BLOCK_BIT_BUSY" for x
    by (rule TEST_SBI_same) (simp add: BLOCK_BIT_BUSY_def)
  note nxt = next_block_index_ok [OF ok]
  have empty: "fst (get_current_block cfg p) = None"
    if "block_buffer_head p = block_buffer_tail p"
    using that by (simp add: get_current_block_def blocks_queued_def)
  have recalc: "fst (get_current_block cfg p) = None"
    if "block_buffer_head p \<noteq> block_buffer_tail p" and "?R ?t"
    using that by (simp add: get_current_block_def blocks_queued_def Let_def)
  have succ: "fst (get_current_block cfg p) = None"
    if "block_buffer_head p \<noteq> block_buffer_tail p" and "1 < unat (movesplanned cfg p)"
      and "?R ?n"
    using that by (simp add: get_current_block_def blocks_queued_def Let_def nxt)
  have run: "get_current_block cfg p =
      (Some ?t,
       (if ULTRA_LCD cfg
        then p\<lparr>block_buffer_runtime_us :=
                 block_buffer_runtime_us p - segment_time (block_buffer p ! ?t)\<rparr>
        else p)
       \<lparr>block_buffer := (block_buffer p)[?t :=
           (block_buffer p ! ?t)\<lparr>flag := SBI (flag (block_buffer p ! ?t)) BLOCK_BIT_BUSY\<rparr>]\<rparr>)"
    if "block_buffer_head p \<noteq> block_buffer_tail p" and "\<not> ?R ?t"
      and "1 < unat (movesplanned cfg p) \<longrightarrow> \<not> ?R ?n"
    using that by (simp add: get_current_block_def blocks_queued_def Let_def nxt)
  show ?thesis
  proof (intro conjI impI)
    assume "block_buffer_head p = block_buffer_tail p"
    then show "fst (get_current_block cfg p) = None" by (rule empty)
  next
    assume "block_buffer_head p \<noteq> block_buffer_tail p \<and> ?R ?t"
    then show "fst (get_current_block cfg p) = None" using recalc by blast
  next
    assume "block_buffer_head p \<noteq> block_buffer_tail p \<and> 1 < unat (movesplanned cfg p) \<and> ?R ?n"
    then show "fst (get_current_block cfg p) = None" using succ by blast
  next
    assume a: "block_buffer_head p \<noteq> block_buffer_tail p \<and> \<not> ?R ?t
        \<and> (1 < unat (movesplanned cfg p) \<longrightarrow> \<not> ?R ?n)"
    then have r: "get_current_block cfg p =
      (Some ?t,
       (if ULTRA_LCD cfg
        then p\<lparr>block_buffer_runtime_us :=
                 block_buffer_runtime_us p - segment_time (block_buffer p ! ?t)\<rparr>
        else p)
       \<lparr>block_buffer := (block_buffer p)[?t :=
           (block_buffer p ! ?t)\<lparr>flag := SBI (flag (block_buffer p ! ?t)) BLOCK_BIT_BUSY\<rparr>]\<rparr>)"
      using run by blast
    show "fst (get_current_block cfg p) = Some ?t" by (simp add: r)
    show "block_buffer (snd (get_current_block cfg p)) =
              (block_buffer p)[?t :=
                 (block_buffer p ! ?t)\<lparr>flag := SBI (flag (block_buffer p ! ?t)) BLOCK_BIT_BUSY\<rparr>]"
      by (simp add: r)
    show "TEST (flag (block_buffer (snd (get_current_block cfg p)) ! ?t)) BLOCK_BIT_BUSY"
      using len by (simp add: r busy)
  qed
qed

lemma planner_ex_ok: "planner_ok cfg_ex planner_ex"
  by (simp add: planner_ok_def cfg_ex_def planner_ex_def)

lemma test_flag_0: "\<not> TEST 0 BLOCK_BIT_RECALCULATE" "TEST 1 BLOCK_BIT_RECALCULATE"
  by (simp_all add: TEST_def BLOCK_BIT_RECALCULATE_def)

theorem get_current_block_witness:
  "planner_ok cfg_ex planner_ex
   \<and> fst (get_current_block cfg_ex planner_ex) = Some 0
   \<and> TEST (flag (block_buffer (snd (get_current_block cfg_ex planner_ex)) ! 0)) BLOCK_BIT_BUSY
   \<and> planner_ok cfg_ex (planner_ex\<lparr>block_buffer_head := 0\<rparr>)
   \<and> fst (get_current_block cfg_ex (planner_ex\<lparr>block_buffer_head := 0\<rparr>)) = None
   \<and> planner_ok cfg_ex
        (planner_ex\<lparr>block_buffer := [block_ex, block_ex\<lparr>flag := 1\<rparr>, block_ex, block_ex]\<rparr>)
   \<and> fst (get_current_block cfg_ex
        (planner_ex\<lparr>block_buffer := [block_ex, block_ex\<lparr>flag := 1\<rparr>, block_ex, block_ex]\<rparr>)) = None"
proof -
  let ?p1 = "planner_ex\<lparr>block_buffer_head := 0\<rparr>"
  let ?p2 = "planner_ex\<lparr>block_buffer := [block_ex, block_ex\<lparr>flag := 1\<rparr>, block_ex, block_ex]\<rparr>"
  have ok: "planner_ok cfg_ex planner_ex" by (rule planner_ex_ok)
  have ok1: "planner_ok cfg_ex ?p1" by (simp add: planner_ok_def cfg_ex_def planner_ex_def)
  have ok2: "planner_ok cfg_ex ?p2" by (simp add: planner_ok_def cfg_ex_def planner_ex_def)
  have t: "unat (block_buffer_tail planner_ex) = 0" by (simp add: planner_ex_def)
  have pre: "block_buffer_head planner_ex \<noteq> block_buffer_tail planner_ex
      \<and> \<not> TEST (flag (block_buffer planner_ex ! unat (block_buffer_tail planner_ex)))
            BLOCK_BIT_RECALCULATE
      \<and> (1 < unat (movesplanned cfg_ex planner_ex) \<longrightarrow>
           \<not> TEST (flag (block_buffer planner_ex !
              ((unat (block_buffer_tail planner_ex) + 1) mod BLOCK_BUFFER_SIZE cfg_ex)))
              BLOCK_BIT_RECALCULATE)"
    by (simp add: planner_ex_def block_ex_def cfg_ex_def test_flag_0)
  have a: "fst (get_current_block cfg_ex planner_ex) = Some 0
      \<and> TEST (flag (block_buffer (snd (get_current_block cfg_ex planner_ex)) ! 0)) BLOCK_BIT_BUSY"
    using get_current_block_spec [OF ok] pre unfolding t by blast
  have pre1: "block_buffer_head ?p1 = block_buffer_tail ?p1" by (simp add: planner_ex_def)
  have b: "fst (get_current_block cfg_ex ?p1) = None"
    using get_current_block_spec [OF ok1] pre1 by blast
  have pre2: "block_buffer_head ?p2 \<noteq> block_buffer_tail ?p2
      \<and> 1 < unat (movesplanned cfg_ex ?p2)
      \<and> TEST (flag (block_buffer ?p2 !
              ((unat (block_buffer_tail ?p2) + 1) mod BLOCK_BUFFER_SIZE cfg_ex)))
              BLOCK_BIT_RECALCULATE"
    by (simp add: planner_ex_def block_ex_def cfg_ex_def test_flag_0 movesplanned_def BLOCK_MOD_def)
  have c: "fst (get_current_block cfg_ex ?p2) = None"
    using get_current_block_spec [OF ok2] pre2 by blast
  show ?thesis using ok ok1 ok2 a b c by blast
qed

text \<open>
  C10. In every state of the ring buffer, \<open>discard_current_block\<close> advances the tail
  index by one modulo the buffer size when the buffer is not empty, and changes nothing
  else; on an empty buffer it leaves the planner as it is.
\<close>

theorem discard_current_block_spec:
  assumes "planner_ok cfg p"
  shows "(block_buffer_head p \<noteq> block_buffer_tail p \<longrightarrow>
            discard_current_block cfg p =
              p\<lparr>block_buffer_tail :=
                   word_of_int ((uint (block_buffer_tail p) + 1) mod int (BLOCK_BUFFER_SIZE cfg))\<rparr>
            \<and> uint (block_buffer_tail (discard_current_block cfg p)) =
                (uint (block_buffer_tail p) + 1) mod int (BLOCK_BUFFER_SIZE cfg))
       \<and> (block_buffer_head p = block_buffer_tail p \<longrightarrow> discard_current_block cfg p = p)"
proof -
  from assms obtain k where k: "BLOCK_BUFFER_SIZE cfg = 2 ^ k" and k7: "k \<le> 7"
    by (rule planner_ok_size)
  let ?m = "(uint (block_buffer_tail p) + 1) mod int (BLOCK_BUFFER_SIZE cfg)"
  have pos: "0 < int (BLOCK_BUFFER_SIZE cfg)" by (simp add: k)
  have "(2::int) ^ k \<le> 2 ^ 7" using k7 by (intro power_increasing) simp_all
  then have le: "int (BLOCK_BUFFER_SIZE cfg) \<le> 128" by (simp add: k)
  have m0: "0 \<le> ?m" using pos by simp
  have m1: "?m < int (BLOCK_BUFFER_SIZE cfg)" using pos by simp
  have "uint (word_of_int ?m :: uint8) = ?m"
    using m0 m1 le by (simp add: uint_word_of_int take_bit_int_eq_self)
  then show ?thesis
    by (simp add: discard_current_block_def blocks_queued_def BLOCK_MOD_ok [OF assms])
qed

theorem discard_current_block_witness:
  "planner_ok cfg_ex planner_ex
   \<and> uint (block_buffer_tail (discard_current_block cfg_ex planner_ex)) = 1
   \<and> planner_ok cfg_ex (planner_ex\<lparr>block_buffer_head := 1, block_buffer_tail := 3\<rparr>)
   \<and> uint (block_buffer_tail
        (discard_current_block cfg_ex (planner_ex\<lparr>block_buffer_head := 1, block_buffer_tail := 3\<rparr>))) = 0
   \<and> discard_current_block cfg_ex (planner_ex\<lparr>block_buffer_head := 0\<rparr>)
        = planner_ex\<lparr>block_buffer_head := 0\<rparr>"
proof -
  let ?p1 = "planner_ex\<lparr>block_buffer_head := 1, block_buffer_tail := 3\<rparr>"
  let ?p2 = "planner_ex\<lparr>block_buffer_head := 0\<rparr>"
  have ok: "planner_ok cfg_ex planner_ex" by (rule planner_ex_ok)
  have ok1: "planner_ok cfg_ex ?p1" by (simp add: planner_ok_def cfg_ex_def planner_ex_def)
  have ok2: "planner_ok cfg_ex ?p2" by (simp add: planner_ok_def cfg_ex_def planner_ex_def)
  have pre: "block_buffer_head planner_ex \<noteq> block_buffer_tail planner_ex"
    by (simp add: planner_ex_def)
  have v: "(uint (block_buffer_tail planner_ex) + 1) mod int (BLOCK_BUFFER_SIZE cfg_ex) = 1"
    by (simp add: planner_ex_def cfg_ex_def)
  have a: "uint (block_buffer_tail (discard_current_block cfg_ex planner_ex)) = 1"
    using discard_current_block_spec [OF ok] pre unfolding v by blast
  have pre1: "block_buffer_head ?p1 \<noteq> block_buffer_tail ?p1"
    by (simp add: planner_ex_def)
  have v1: "(uint (block_buffer_tail ?p1) + 1) mod int (BLOCK_BUFFER_SIZE cfg_ex) = 0"
    by (simp add: planner_ex_def cfg_ex_def)
  have b: "uint (block_buffer_tail (discard_current_block cfg_ex ?p1)) = 0"
    using discard_current_block_spec [OF ok1] pre1 unfolding v1 by blast
  have pre2: "block_buffer_head ?p2 = block_buffer_tail ?p2"
    by (simp add: planner_ex_def)
  have c: "discard_current_block cfg_ex ?p2 = ?p2"
    using discard_current_block_spec [OF ok2] pre2 by blast
  show ?thesis using ok ok1 a b c by blast
qed

section \<open>Fatal errors and the final loop of kill\<close>

lemma kill_loop_not_Some:
  assumes "kill_loop s = Some y"
  shows False
  by (rule kill_loop.raw_induct [where P = "\<lambda>_ _. False", OF _ assms]) blast

lemma kill_loop_never_returns: "kill_loop s = None"
  using kill_loop_not_Some [of s] by (cases "kill_loop s") auto

lemma kill_never_returns: "kill env now s = None"
  by (simp add: kill_def kill_loop_never_returns)

lemma kill_loop_iterations_wdr:
  "kill_loop_iterations n s = s\<lparr>wdr_count := wdr_count s + n\<rparr>"
  by (induction n arbitrary: s) (simp_all add: wdr_def)

lemmas heater_defs = disable_all_heaters_def setTargetHotend_def setTargetBed_def
  start_watching_heater_def start_watching_bed_def Let_def

lemma disable_all_heaters_off:
  "soft_pwm_amount (disable_all_heaters env now s) = 0"
  "\<not> HEATER_0 (disable_all_heaters env now s)"
  "\<not> HEATER_BED (disable_all_heaters env now s)"
  "\<not> is_bed_heating (disable_all_heaters env now s)"
  "target_temperature (disable_all_heaters env now s) = 0"
  "target_temperature_bed (disable_all_heaters env now s) = 0"
  by (simp_all add: heater_defs)

lemma disable_all_heaters_frame:
  "Running (disable_all_heaters env now s) = Running s"
  "killed (disable_all_heaters env now s) = killed s"
  "temp_error_log (disable_all_heaters env now s) = temp_error_log s"
  "thermal_runaway_state_machine (disable_all_heaters env now s) = thermal_runaway_state_machine s"
  "thermal_runaway_bed_state_machine (disable_all_heaters env now s) = thermal_runaway_bed_state_machine s"
  "wdr_count (disable_all_heaters env now s) = wdr_count s"
  by (simp_all add: heater_defs)

lemma kill_prefix_off:
  "soft_pwm_amount (kill_prefix env now s) = 0"
  "\<not> HEATER_0 (kill_prefix env now s)"
  "\<not> HEATER_BED (kill_prefix env now s)"
  "\<not> is_bed_heating (kill_prefix env now s)"
  "target_temperature (kill_prefix env now s) = 0"
  "target_temperature_bed (kill_prefix env now s) = 0"
  "\<not> interrupts_enabled (kill_prefix env now s)"
  by (simp_all add: kill_prefix_def Let_def disable_all_heaters_off)
     (simp add: heater_defs cli_def)

lemma kill_prefix_frame:
  "Running (kill_prefix env now s) = Running s"
  "killed (kill_prefix env now s) = killed s"
  "temp_error_log (kill_prefix env now s) = temp_error_log s"
  "thermal_runaway_state_machine (kill_prefix env now s) = thermal_runaway_state_machine s"
  "thermal_runaway_bed_state_machine (kill_prefix env now s) = thermal_runaway_bed_state_machine s"
  by (simp_all add: kill_prefix_def Let_def disable_all_heaters_frame cli_def disable_all_steppers_def)

text \<open>
  C1, as the code has it. The first fatal thermal error (a call of \<open>_temp_error\<close> while
  \<open>killed\<close> is false, without the failsafe override) clears \<open>Running\<close>, switches every
  heater output off and enters the final loop of \<open>kill\<close>, which never exits: \<open>kill\<close>
  has no result. Every pass through that loop resets the watchdog: after \<open>n\<close> passes
  the watchdog has been reset \<open>n\<close> more times, and the heaters are still off.
\<close>

theorem temp_error_fatal:
  assumes "\<not> BOGUS_TEMPERATURE_FAILSAFE_OVERRIDE env" and "\<not> killed s"
  shows "isl (temp_error env now manager_type msg s)
    \<and> projl (temp_error env now manager_type msg s) =
        kill_prefix env now
          (s\<lparr>temp_error_log := temp_error_log s @ [(manager_type, msg)],
             Running := False, killed := True\<rparr>)
    \<and> kill env now (s\<lparr>temp_error_log := temp_error_log s @ [(manager_type, msg)],
                      Running := False, killed := True\<rparr>) = None
    \<and> kill_loop (projl (temp_error env now manager_type msg s)) = None
    \<and> (\<forall>n. wdr_count (kill_loop_iterations n (projl (temp_error env now manager_type msg s)))
             = wdr_count (projl (temp_error env now manager_type msg s)) + n
           \<and> \<not> Running (kill_loop_iterations n (projl (temp_error env now manager_type msg s)))
           \<and> soft_pwm_amount (kill_loop_iterations n (projl (temp_error env now manager_type msg s))) = 0
           \<and> \<not> is_bed_heating (kill_loop_iterations n (projl (temp_error env now manager_type msg s)))
           \<and> \<not> HEATER_0 (kill_loop_iterations n (projl (temp_error env now manager_type msg s)))
           \<and> \<not> HEATER_BED (kill_loop_iterations n (projl (temp_error env now manager_type msg s))))"
proof -
  let ?s1 = "s\<lparr>temp_error_log := temp_error_log s @ [(manager_type, msg)],
               Running := False, killed := True\<rparr>"
  have r: "temp_error env now manager_type msg s = Inl (kill_prefix env now ?s1)"
    using assms by (simp add: temp_error_def Let_def)
  show ?thesis
    by (simp add: r kill_never_returns kill_loop_never_returns kill_loop_iterations_wdr
        kill_prefix_off kill_prefix_frame)
qed

theorem temp_error_fatal_witness:
  "\<not> BOGUS_TEMPERATURE_FAILSAFE_OVERRIDE env_ex \<and> \<not> killed thermal_stuck
   \<and> isl (temp_error env_ex 5000 Hotend T_MAXTEMP thermal_stuck)
   \<and> \<not> Running (kill_loop_iterations 3 (projl (temp_error env_ex 5000 Hotend T_MAXTEMP thermal_stuck)))
   \<and> \<not> HEATER_0 (kill_loop_iterations 3 (projl (temp_error env_ex 5000 Hotend T_MAXTEMP thermal_stuck)))
   \<and> wdr_count (kill_loop_iterations 3 (projl (temp_error env_ex 5000 Hotend T_MAXTEMP thermal_stuck)))
       = wdr_count (projl (temp_error env_ex 5000 Hotend T_MAXTEMP thermal_stuck)) + 3"
proof -
  have h1: "\<not> BOGUS_TEMPERATURE_FAILSAFE_OVERRIDE env_ex" by (simp add: env_ex_def)
  have h2: "\<not> killed thermal_stuck" by (simp add: thermal_stuck_def thermal_ex_def)
  show ?thesis
    using h1 h2 temp_error_fatal [OF h1 h2, of 5000 Hotend T_MAXTEMP] by blast
qed

text \<open>
  The claim as stated says that the watchdog is never reset in that loop. After one pass
  through the loop it has been reset.
\<close>

theorem watchdog_reset_in_kill_loop:
  "isl (temp_error env_ex 5000 Hotend T_MAXTEMP thermal_stuck)
   \<and> wdr_count (kill_loop_iterations 1 (projl (temp_error env_ex 5000 Hotend T_MAXTEMP thermal_stuck)))
       \<noteq> wdr_count (projl (temp_error env_ex 5000 Hotend T_MAXTEMP thermal_stuck))"
  by (simp add: temp_error_def Let_def env_ex_def thermal_stuck_def thermal_ex_def wdr_def)

section \<open>Soft PWM\<close>

lemma uint8_le_255: "(w :: uint8) \<le> 255"
proof -
  have "(255 :: uint8) = - 1" by simp
  then show ?thesis by (simp only: word_n1_ge)
qed

lemma isr_pwm_outputs:
  "HEATER_0 (isr_pwm s) = (pwm_counter s \<le> soft_pwm_amount s \<and> 0 < soft_pwm_amount s)"
  "HEATER_BED (isr_pwm s) = is_bed_heating s"
  "pwm_counter (isr_pwm s) = pwm_counter s + 1"
  by (simp_all add: isr_pwm_def Let_def uint8_le_255)

lemma isr_adc_frame:
  "soft_pwm_amount (isr_adc env adc s) = soft_pwm_amount s"
  "is_bed_heating (isr_adc env adc s) = is_bed_heating s"
  "pwm_counter (isr_adc env adc s) = pwm_counter s"
  "skip_counter (isr_adc env adc s) = skip_counter s"
  "HEATER_0 (isr_adc env adc s) = HEATER_0 s"
  "HEATER_BED (isr_adc env adc s) = HEATER_BED s"
  by (simp_all add: isr_adc_def Let_def split: sensor_state.splits)

text \<open>
  C9, as the code has it. On a call of the interrupt routine that reaches the PWM code
  (every eighth call), each heater output is set high exactly when the counter is at most
  the heater's duty and the duty is not zero; the counter is then incremented modulo 256.
  The duty of the bed is 255 while \<open>is_bed_heating\<close> holds and 0 otherwise. On the other
  calls the outputs and the counter stay as they are.
\<close>

theorem isr_soft_pwm:
  "((skip_counter s + 1) mod skip_mask = 0 \<longrightarrow>
      HEATER_0 (isr env adc s) = (pwm_counter s \<le> soft_pwm_amount s \<and> 0 < soft_pwm_amount s)
    \<and> HEATER_BED (isr env adc s) =
        (pwm_counter s \<le> (if is_bed_heating s then 0xFF else 0) \<and> is_bed_heating s)
    \<and> pwm_counter (isr env adc s) = pwm_counter s + 1)
   \<and> ((skip_counter s + 1) mod skip_mask \<noteq> 0 \<longrightarrow>
      HEATER_0 (isr env adc s) = HEATER_0 s \<and> HEATER_BED (isr env adc s) = HEATER_BED s
    \<and> pwm_counter (isr env adc s) = pwm_counter s)"
  by (simp add: isr_def Let_def isr_pwm_outputs isr_adc_frame uint8_le_255)

theorem isr_soft_pwm_witness:
  "(skip_counter (thermal_stuck\<lparr>skip_counter := 7, pwm_counter := 200\<rparr>) + 1) mod skip_mask = 0
   \<and> HEATER_0 (isr env_ex 480 (thermal_stuck\<lparr>skip_counter := 7, pwm_counter := 200\<rparr>))
   \<and> (skip_counter (thermal_stuck\<lparr>skip_counter := 3, pwm_counter := 200\<rparr>) + 1) mod skip_mask \<noteq> 0
   \<and> \<not> HEATER_0 (isr env_ex 480 (thermal_stuck\<lparr>skip_counter := 3, pwm_counter := 200\<rparr>))"
  using isr_soft_pwm [of "thermal_stuck\<lparr>skip_counter := 7, pwm_counter := 200\<rparr>" env_ex 480]
    isr_soft_pwm [of "thermal_stuck\<lparr>skip_counter := 3, pwm_counter := 200\<rparr>" env_ex 480]
  by (simp add: thermal_stuck_def thermal_ex_def skip_mask_def)

text \<open>
  The claim as stated sets the output high whenever the counter is at most the duty. With
  a duty of 0 and the counter at 0 the output is set low.
\<close>

theorem pwm_zero_duty_counterexample:
  "(skip_counter (thermal_ex\<lparr>skip_counter := 7\<rparr>) + 1) mod skip_mask = 0
   \<and> pwm_counter (thermal_ex\<lparr>skip_counter := 7\<rparr>) \<le> soft_pwm_amount (thermal_ex\<lparr>skip_counter := 7\<rparr>)
   \<and> \<not> HEATER_0 (isr env_ex 480 (thermal_ex\<lparr>skip_counter := 7\<rparr>))"
  by (simp add: isr_def isr_adc_def isr_pwm_def Let_def thermal_ex_def skip_mask_def)

section \<open>Range checks of the raw readings\<close>

lemma errors_need_target_refl: "errors_need_target s s"
  by (simp add: errors_need_target_def)

lemma temp_error_need_target:
  assumes inv: "errors_need_target s0 s"
    and tgt: "case manager_type of Hotend \<Rightarrow> 0 < target_temperature s | Bed \<Rightarrow> 0 < target_temperature_bed s"
  shows "errors_need_target s0 (error_state (temp_error env now manager_type msg s))"
proof -
  from inv obtain new where new: "temp_error_log s = temp_error_log s0 @ new"
    and ok: "\<forall>e \<in> set new. (fst e = Hotend \<longrightarrow> 0 < target_temperature s0)
                           \<and> (fst e = Bed \<longrightarrow> 0 < target_temperature_bed s0)"
    and t: "target_temperature s = target_temperature s0 \<or> target_temperature s = 0"
    and tb: "target_temperature_bed s = target_temperature_bed s0 \<or> target_temperature_bed s = 0"
    unfolding errors_need_target_def by blast
  let ?new = "new @ [(manager_type, msg)]"
  have ok': "\<forall>e \<in> set ?new. (fst e = Hotend \<longrightarrow> 0 < target_temperature s0)
                           \<and> (fst e = Bed \<longrightarrow> 0 < target_temperature_bed s0)"
    using ok tgt t tb by (cases manager_type) auto
  let ?r = "error_state (temp_error env now manager_type msg s)"
  have log: "temp_error_log ?r = temp_error_log s0 @ ?new"
    by (simp add: temp_error_def error_state_def Let_def new kill_prefix_frame disable_all_heaters_frame)
  have t': "target_temperature ?r = target_temperature s0 \<or> target_temperature ?r = 0"
    using t by (simp add: temp_error_def error_state_def Let_def kill_prefix_off disable_all_heaters_off)
  have tb': "target_temperature_bed ?r = target_temperature_bed s0 \<or> target_temperature_bed ?r = 0"
    using tb by (simp add: temp_error_def error_state_def Let_def kill_prefix_off disable_all_heaters_off)
  show ?thesis
    unfolding errors_need_target_def using log ok' t' tb' by blast
qed

lemma check_hotend_need_target:
  assumes "errors_need_target s0 s"
  shows "errors_need_target s0
           (error_state (when_error (c \<and> 0 < target_temperature s) (temp_error env now Hotend msg) s))"
  using assms temp_error_need_target [of s0 s Hotend env now msg]
  by (simp add: when_error_def error_state_def)

lemma check_bed_need_target:
  assumes "errors_need_target s0 s"
  shows "errors_need_target s0
           (error_state (when_error (c \<and> 0 < target_temperature_bed s) (temp_error env now Bed msg) s))"
  using assms temp_error_need_target [of s0 s Bed env now msg]
  by (simp add: when_error_def error_state_def)

lemma and_then_need_target:
  assumes "errors_need_target s0 (error_state r)"
    and "\<And>s. errors_need_target s0 s \<Longrightarrow> errors_need_target s0 (error_state (f s))"
  shows "errors_need_target s0 (error_state (and_then r f))"
  using assms by (cases r) (simp_all add: and_then_def error_state_def)


lemma hotend_range_check_need_target:
  assumes "errors_need_target s0 s"
  shows "errors_need_target s0 (error_state (hotend_range_check env now raw s))"
proof -
  have step: "errors_need_target s0
      (error_state (and_then (when_error (c1 \<and> 0 < target_temperature s) (temp_error env now Hotend m1) s)
         (\<lambda>s. when_error (c2 \<and> 0 < target_temperature s) (temp_error env now Hotend m2) s)))"
    for c1 c2 m1 m2
    by (rule and_then_need_target)
       (rule check_hotend_need_target [OF assms], rule check_hotend_need_target)
  have base: "errors_need_target s0 (error_state (Inr s))"
    using assms by (simp add: error_state_def)
  show ?thesis
    unfolding hotend_range_check_def max_temp_error_def min_temp_error_def
    by (simp only: step base simp_thms split: if_split)
qed

lemma bed_range_check_need_target:
  assumes "errors_need_target s0 s"
  shows "errors_need_target s0 (error_state (bed_range_check env now raw s))"
proof -
  have step: "errors_need_target s0
      (error_state (and_then (when_error (c1 \<and> 0 < target_temperature_bed s) (temp_error env now Bed m1) s)
         (\<lambda>s. when_error (c2 \<and> 0 < target_temperature_bed s) (temp_error env now Bed m2) s)))"
    for c1 c2 m1 m2
    by (rule and_then_need_target)
       (rule check_bed_need_target [OF assms], rule check_bed_need_target)
  have base: "errors_need_target s0 (error_state (Inr s))"
    using assms by (simp add: error_state_def)
  show ?thesis
    unfolding bed_range_check_def max_temp_error_def min_temp_error_def
    by (simp only: step base simp_thms split: if_split)
qed

lemma range_checks_need_target:
  assumes "errors_need_target s0 s"
  shows "errors_need_target s0
           (error_state (and_then (hotend_range_check env now raw s) (bed_range_check env now rawb)))"
  by (rule and_then_need_target)
     (rule hotend_range_check_need_target [OF assms], rule bed_range_check_need_target)

lemma appendValue_frame:
  "temp_error_log (appendValue v b s) = temp_error_log s"
  "target_temperature (appendValue v b s) = target_temperature s"
  "target_temperature_bed (appendValue v b s) = target_temperature_bed s"
  by (simp_all add: appendValue_def Let_def)

lemma update_need_target:
  "errors_need_target s (final_state (updateTemperaturesFromRawValues env now s))"
proof (cases "ready_flag s")
  case False
  then show ?thesis
    by (simp add: updateTemperaturesFromRawValues_def final_state_def errors_need_target_refl)
next
  case True
  let ?s0 = "s\<lparr>ready_flag := False\<rparr>"
  let ?c = "and_then (hotend_range_check env now (raw_adc_hotend s) ?s0)
                     (bed_range_check env now (raw_adc_bed s))"
  have "errors_need_target ?s0 ?s0" by (rule errors_need_target_refl)
  then have "errors_need_target ?s0 (error_state ?c)" by (rule range_checks_need_target)
  then have c: "errors_need_target s (error_state ?c)" by (simp add: errors_need_target_def)
  show ?thesis
  proof (cases ?c)
    case (Inl k)
    then show ?thesis using c True
      by (simp add: updateTemperaturesFromRawValues_def final_state_def Let_def and_then_def
          error_state_def)
  next
    case (Inr k)
    then show ?thesis using c True
      by (simp add: updateTemperaturesFromRawValues_def final_state_def Let_def and_then_def
          error_state_def errors_need_target_def appendValue_frame wdr_def)
  qed
qed


lemma and_then_log_grows:
  assumes "temp_error_log (error_state r) = l"
    and "\<And>s. errors_need_target s (error_state (f s))"
  shows "\<exists>new. temp_error_log (error_state (and_then r f)) = l @ new"
proof (cases r)
  case (Inl k)
  then show ?thesis using assms(1) by (simp add: and_then_def error_state_def)
next
  case (Inr k)
  from assms(2) [of k] obtain new where "temp_error_log (error_state (f k)) = temp_error_log k @ new"
    unfolding errors_need_target_def by blast
  then show ?thesis using Inr assms(1) by (simp add: and_then_def error_state_def)
qed

lemma temp_error_logged:
  "temp_error_log (error_state (temp_error env now manager_type msg s)) =
     temp_error_log s @ [(manager_type, msg)]"
  by (simp add: temp_error_def error_state_def Let_def kill_prefix_frame disable_all_heaters_frame)

lemma hotend_max_logged:
  assumes c: "if HEATER_0_RAW_LO_TEMP env < HEATER_0_RAW_HI_TEMP env
              then Hotend_max_temperature_Adc env \<le> raw else raw \<le> Hotend_max_temperature_Adc env"
    and t: "0 < target_temperature s"
  shows "\<exists>new. temp_error_log (error_state (hotend_range_check env now raw s)) =
           (temp_error_log s @ [(Hotend, T_MAXTEMP)]) @ new"
proof -
  have step: "\<exists>new. temp_error_log (error_state
        (and_then (temp_error env now Hotend T_MAXTEMP s)
           (\<lambda>s. when_error (c2 \<and> 0 < target_temperature s) (temp_error env now Hotend m2) s))) =
      (temp_error_log s @ [(Hotend, T_MAXTEMP)]) @ new" for c2 m2
    by (rule and_then_log_grows [OF temp_error_logged])
       (rule check_hotend_need_target [OF errors_need_target_refl])
  show ?thesis
  proof (cases "HEATER_0_RAW_LO_TEMP env < HEATER_0_RAW_HI_TEMP env")
    case True
    then have "hotend_range_check env now raw s =
        and_then (temp_error env now Hotend T_MAXTEMP s)
           (\<lambda>s. when_error ((raw \<le> Hotend_min_temperature_Adc env \<and> \<not> is_preheating)
                               \<and> 0 < target_temperature s) (temp_error env now Hotend T_MINTEMP) s)"
      using c t by (simp add: hotend_range_check_def ENABLE_ERROR_3_def when_error_def
          max_temp_error_def min_temp_error_def cong: if_cong)
    then show ?thesis by (simp only: step)
  next
    case False
    then have "hotend_range_check env now raw s =
        and_then (temp_error env now Hotend T_MAXTEMP s)
           (\<lambda>s. when_error ((Hotend_min_temperature_Adc env \<le> raw \<and> \<not> is_preheating)
                               \<and> 0 < target_temperature s) (temp_error env now Hotend T_MINTEMP) s)"
      using c t by (simp add: hotend_range_check_def ENABLE_ERROR_3_def when_error_def
          max_temp_error_def min_temp_error_def cong: if_cong)
    then show ?thesis by (simp only: step)
  qed
qed

lemma final_state_update:
  assumes "ready_flag s"
  shows "temp_error_log (final_state (updateTemperaturesFromRawValues env now s)) =
     temp_error_log (error_state (and_then
        (hotend_range_check env now (raw_adc_hotend s) (s\<lparr>ready_flag := False\<rparr>))
        (bed_range_check env now (raw_adc_bed s))))"
proof (cases "and_then
        (hotend_range_check env now (raw_adc_hotend s) (s\<lparr>ready_flag := False\<rparr>))
        (bed_range_check env now (raw_adc_bed s))")
  case (Inl k)
  then show ?thesis using assms
    by (simp add: updateTemperaturesFromRawValues_def final_state_def Let_def and_then_def
        error_state_def)
next
  case (Inr k)
  then show ?thesis using assms
    by (simp add: updateTemperaturesFromRawValues_def final_state_def Let_def and_then_def
        error_state_def appendValue_frame wdr_def)
qed

text \<open>
  C7. Every error that \<open>updateTemperaturesFromRawValues\<close> raises for a heater is
  raised only if the target of that heater is greater than 0: with a target of 0 neither
  a min-temp nor a max-temp error is raised for it. With a positive hotend target, a fresh
  hotend reading at or beyond the maximum bound does raise the max-temp error.
\<close>

theorem range_errors_only_with_target:
  "(\<forall>msg. (Hotend, msg) \<in> set (new_temp_errors s (updateTemperaturesFromRawValues env now s))
        \<longrightarrow> 0 < target_temperature s)
   \<and> (\<forall>msg. (Bed, msg) \<in> set (new_temp_errors s (updateTemperaturesFromRawValues env now s))
        \<longrightarrow> 0 < target_temperature_bed s)
   \<and> (target_temperature s = 0 \<longrightarrow>
        (Hotend, T_MAXTEMP) \<notin> set (new_temp_errors s (updateTemperaturesFromRawValues env now s))
      \<and> (Hotend, T_MINTEMP) \<notin> set (new_temp_errors s (updateTemperaturesFromRawValues env now s)))
   \<and> (target_temperature_bed s = 0 \<longrightarrow>
        (Bed, T_MAXTEMP) \<notin> set (new_temp_errors s (updateTemperaturesFromRawValues env now s))
      \<and> (Bed, T_MINTEMP) \<notin> set (new_temp_errors s (updateTemperaturesFromRawValues env now s)))
   \<and> (ready_flag s \<and> 0 < target_temperature s
        \<and> (if HEATER_0_RAW_LO_TEMP env < HEATER_0_RAW_HI_TEMP env
            then Hotend_max_temperature_Adc env \<le> raw_adc_hotend s
            else raw_adc_hotend s \<le> Hotend_max_temperature_Adc env)
      \<longrightarrow> (Hotend, T_MAXTEMP) \<in> set (new_temp_errors s (updateTemperaturesFromRawValues env now s)))"
proof -
  let ?r = "updateTemperaturesFromRawValues env now s"
  from update_need_target [of s env now]
  obtain new where new: "temp_error_log (final_state ?r) = temp_error_log s @ new"
    and ok: "\<forall>e \<in> set new. (fst e = Hotend \<longrightarrow> 0 < target_temperature s)
                           \<and> (fst e = Bed \<longrightarrow> 0 < target_temperature_bed s)"
    unfolding errors_need_target_def by blast
  have eq: "new_temp_errors s ?r = new"
    by (simp add: new_temp_errors_def new)
  have h: "0 < target_temperature s" if "(Hotend, msg) \<in> set new" for msg
    using ok that by fastforce
  have b: "0 < target_temperature_bed s" if "(Bed, msg) \<in> set new" for msg
    using ok that by fastforce
  have pos: "(Hotend, T_MAXTEMP) \<in> set new"
    if rdy: "ready_flag s" and t: "0 < target_temperature s"
      and c: "if HEATER_0_RAW_LO_TEMP env < HEATER_0_RAW_HI_TEMP env
            then Hotend_max_temperature_Adc env \<le> raw_adc_hotend s
            else raw_adc_hotend s \<le> Hotend_max_temperature_Adc env"
  proof -
    let ?s0 = "s\<lparr>ready_flag := False\<rparr>"
    have t0: "0 < target_temperature ?s0" using t by simp
    from hotend_max_logged [OF c t0, of now]
    obtain n1 where n1: "temp_error_log (error_state (hotend_range_check env now (raw_adc_hotend s) ?s0))
        = (temp_error_log ?s0 @ [(Hotend, T_MAXTEMP)]) @ n1" by blast
    from and_then_log_grows [OF n1, of "bed_range_check env now (raw_adc_bed s)"]
      bed_range_check_need_target [OF errors_need_target_refl]
    obtain n2 where "temp_error_log (error_state (and_then
        (hotend_range_check env now (raw_adc_hotend s) ?s0) (bed_range_check env now (raw_adc_bed s))))
        = ((temp_error_log ?s0 @ [(Hotend, T_MAXTEMP)]) @ n1) @ n2" by blast
    then have "temp_error_log (final_state ?r) = temp_error_log s @ ((Hotend, T_MAXTEMP) # n1 @ n2)"
      by (simp add: final_state_update [OF rdy])
    then have "new = (Hotend, T_MAXTEMP) # n1 @ n2" using new by simp
    then show ?thesis by simp
  qed
  show ?thesis
    unfolding eq using h b pos by (intro conjI allI impI) auto
qed

theorem range_errors_witness:
  "ready_flag (thermal_stuck\<lparr>raw_adc_hotend := 1000\<rparr>)
   \<and> 0 < target_temperature (thermal_stuck\<lparr>raw_adc_hotend := 1000\<rparr>)
   \<and> raw_adc_hotend (thermal_stuck\<lparr>raw_adc_hotend := 1000\<rparr>) \<le> Hotend_max_temperature_Adc env_ex
   \<and> (Hotend, T_MAXTEMP) \<in> set (new_temp_errors (thermal_stuck\<lparr>raw_adc_hotend := 1000\<rparr>)
        (updateTemperaturesFromRawValues env_ex 0 (thermal_stuck\<lparr>raw_adc_hotend := 1000\<rparr>)))
   \<and> target_temperature (thermal_ex\<lparr>ready_flag := True, raw_adc_hotend := 1000\<rparr>) = 0
   \<and> (Hotend, T_MAXTEMP) \<notin> set (new_temp_errors (thermal_ex\<lparr>ready_flag := True, raw_adc_hotend := 1000\<rparr>)
        (updateTemperaturesFromRawValues env_ex 0 (thermal_ex\<lparr>ready_flag := True, raw_adc_hotend := 1000\<rparr>)))"
  using range_errors_only_with_target [of "thermal_stuck\<lparr>raw_adc_hotend := 1000\<rparr>" env_ex 0]
    range_errors_only_with_target [of "thermal_ex\<lparr>ready_flag := True, raw_adc_hotend := 1000\<rparr>" env_ex 0]
  by (simp add: thermal_stuck_def thermal_ex_def env_ex_def)

section \<open>The thermal-runaway state machine\<close>













lemma and_then_if: "and_then (if c then a else b) f = (if c then and_then a f else and_then b f)"
  by simp
















section \<open>Properties of the trapezoid generator\<close>








text \<open>
  C4 does not hold of the code. For the slow move \<open>block_slow\<close>, whose nominal rate of
  50 steps per second is below the minimal step rate to which the initial and final rates
  are raised, both distance estimates are negative, the plateau is longer than the block,
  and the block is committed with \<open>decelerate_after = 101\<close> although its
  \<open>step_event_count\<close> is 100.
\<close>

theorem trapezoid_slow_block_exceeds_step_count:
  "\<not> TEST (flag block_slow) BLOCK_BIT_BUSY
   \<and> uint (nominal_rate block_slow) = 50
   \<and> uint (step_event_count (calculate_trapezoid_for_block cfg_ex block_slow 0 0)) = 100
   \<and> uint (accelerate_until (calculate_trapezoid_for_block cfg_ex block_slow 0 0)) = 0
   \<and> uint (decelerate_after (calculate_trapezoid_for_block cfg_ex block_slow 0 0)) = 101"
  by (simp add: calculate_trapezoid_for_block_def trapezoid_steps_def block_slow_def block_ex_def
      Let_def MINIMAL_STEP_RATE_def estimate_acceleration_distance_def sq_def TEST_def
      BLOCK_BIT_BUSY_def)

section \<open>Properties of the block builder: dropped moves\<close>

lemma wait_for_free_block_room:
  assumes "block_buffer_tail p \<noteq> next_buffer_head"
  shows "wait_for_free_block idle_call next_buffer_head p = Some p"
  using assms by (subst wait_for_free_block.simps) simp









lemmas steps_eval_defs = buffer_line_steps_def buffer_line_target_def extruder_guards_def
  direction_mask_def round_uint24_def Let_def X_AXIS_def Y_AXIS_def Z_AXIS_def E_AXIS_def
  planner_ex_def cfg_ex_def move_env_ex_def



lemma planner_ex_room:
  "block_buffer_tail planner_ex \<noteq> next_block_index cfg_ex (block_buffer_head planner_ex)"
  by (simp add: planner_ex_def cfg_ex_def next_block_index_def BLOCK_MOD_def)



section \<open>Properties of the block builder: entry speeds of an admitted move\<close>

lemma k_planner_frame:
  "block_buffer (k_planner (buffer_line_kinematics cfg env p ls block0 fr)) = block_buffer p"
  "block_buffer_head (k_planner (buffer_line_kinematics cfg env p ls block0 fr)) = block_buffer_head p"
  by (simp_all add: buffer_line_kinematics_def Let_def)

lemma admitted_block:
  assumes "unat (block_buffer_head p) < length (block_buffer p)"
  shows "block_buffer (ad_planner (buffer_line_admit cfg env p ls block0 nbh fr))
           ! unat (block_buffer_head p) =
     (let k = buffer_line_kinematics cfg env p ls block0 fr;
          block2 = k_block k;
          safe_speed = safe_speed_loop p (nominal_speed block2) (k_current_speed k);
          j = junction_speed p (k_moves_queued k) (nominal_speed block2) (k_current_speed k) safe_speed;
          block3 = (if snd j
                    then block2\<lparr>flag := SBI (flag block2) BLOCK_BIT_START_FROM_FULL_HALT\<rparr>
                    else block2);
          v_allowable = max_allowable_speed cfg (- acceleration block3) 0 (millimeters block3);
          block4 = block3\<lparr>max_entry_speed := fst j,
                          entry_speed := (if stepper_isr_enabled env then 0
                                          else min (fst j) v_allowable)\<rparr>
      in block4\<lparr>flag := flag block4 OR
                            (if nominal_speed block4 \<le> v_allowable
                             then push_bit BLOCK_BIT_RECALCULATE 1 OR push_bit BLOCK_BIT_NOMINAL_LENGTH 1
                             else push_bit BLOCK_BIT_RECALCULATE 1)\<rparr>)"
  using assms unfolding buffer_line_admit_def Let_def
  by (simp add: k_planner_frame)

lemma moves_queued_kinematics:
  "k_moves_queued (buffer_line_kinematics cfg env p ls block0 fr) = movesplanned cfg p"
  by (simp add: buffer_line_kinematics_def Let_def)

lemma admitted_fields:
  "ad_vmax_junction (buffer_line_admit cfg env p ls block0 nbh fr) =
      (let k = buffer_line_kinematics cfg env p ls block0 fr
       in fst (junction_speed p (k_moves_queued k) (nominal_speed (k_block k)) (k_current_speed k)
            (safe_speed_loop p (nominal_speed (k_block k)) (k_current_speed k))))"
  "ad_current_speed (buffer_line_admit cfg env p ls block0 nbh fr)
     = k_current_speed (buffer_line_kinematics cfg env p ls block0 fr)"
  "ad_safe_speed (buffer_line_admit cfg env p ls block0 nbh fr)
     = (let k = buffer_line_kinematics cfg env p ls block0 fr
        in safe_speed_loop p (nominal_speed (k_block k)) (k_current_speed k))"
  "block_buffer_head (ad_planner (buffer_line_admit cfg env p ls block0 nbh fr)) = nbh"
  by (simp_all add: buffer_line_admit_def Let_def)

text \<open>
  C6, as the code has it. For every move admitted by the block builder, the block written
  at the ring head has \<open>max_entry_speed\<close> equal to the computed junction speed
  \<open>vmax_junction\<close>. Its \<open>entry_speed\<close> is 0 when the stepper interrupt is enabled,
  and the minimum of \<open>vmax_junction\<close> and
  \<open>max_allowable_speed (- acceleration) 0 millimeters\<close> when it is disabled. The junction
  speed is the one computed from the number of moves queued, the nominal speed of the
  block, the per-axis speeds and the safe speed, and the head of the ring is advanced to
  the next index. These are the values set by the block builder, before the look-ahead
  passes run.
\<close>

theorem admitted_entry_speeds:
  assumes "unat (block_buffer_head p) < length (block_buffer p)"
  shows
    "max_entry_speed (block_buffer (ad_planner (buffer_line_admit cfg env p ls block0 nbh fr))
        ! unat (block_buffer_head p))
       = ad_vmax_junction (buffer_line_admit cfg env p ls block0 nbh fr)
   \<and> entry_speed (block_buffer (ad_planner (buffer_line_admit cfg env p ls block0 nbh fr))
        ! unat (block_buffer_head p))
       = (if stepper_isr_enabled env then 0
          else min (ad_vmax_junction (buffer_line_admit cfg env p ls block0 nbh fr))
                 (max_allowable_speed cfg
                    (- acceleration (block_buffer (ad_planner (buffer_line_admit cfg env p ls block0 nbh fr))
                         ! unat (block_buffer_head p)))
                    0
                    (millimeters (block_buffer (ad_planner (buffer_line_admit cfg env p ls block0 nbh fr))
                         ! unat (block_buffer_head p)))))
   \<and> ad_vmax_junction (buffer_line_admit cfg env p ls block0 nbh fr)
       = fst (junction_speed p (movesplanned cfg p)
                (nominal_speed (block_buffer (ad_planner (buffer_line_admit cfg env p ls block0 nbh fr))
                         ! unat (block_buffer_head p)))
                (ad_current_speed (buffer_line_admit cfg env p ls block0 nbh fr))
                (ad_safe_speed (buffer_line_admit cfg env p ls block0 nbh fr)))
   \<and> block_buffer_head (ad_planner (buffer_line_admit cfg env p ls block0 nbh fr)) = nbh"
  unfolding admitted_block [OF assms] admitted_fields
  by (simp add: Let_def moves_queued_kinematics)

lemma e_move_steps:
  "buffer_line_steps cfg_ex move_env_ex planner_ex 0 0 0 1 =
     \<lparr>ls_target = [0, 0, 0, 100], ls_position = [0, 0, 0, 0], ls_da = 0, ls_db = 0, ls_dc = 0,
      ls_de = 100, ls_dm = 0, ls_esteps_float = 100, ls_esteps = 100, ls_steps = [0, 0, 0, 100],
      ls_step_event_count = 100\<rparr>"
  by (simp add: steps_eval_defs)

lemma e_move_block:
  "new_block (buffer_line_steps cfg_ex move_env_ex planner_ex 0 0 0 1) planner_ex =
     block_ex\<lparr>flag := 0, direction_bits := 0, steps := [0, 0, 0, 100], step_event_count := 100\<rparr>"
  unfolding e_move_steps by (simp add: new_block_def planner_ex_def)

lemma e_move_queued: "movesplanned cfg_ex (planner_ex\<lparr>block_buffer := bb\<rparr>) = 2"
  by (simp add: movesplanned_def BLOCK_MOD_def cfg_ex_def planner_ex_def)

lemma e_move_feedrate: "feedrate_floor (planner_ex\<lparr>block_buffer := bb\<rparr>) 100 5 = 5"
  by (simp add: feedrate_floor_def planner_ex_def)

lemma e_move_delta: "move_delta_mm (planner_ex\<lparr>block_buffer := bb\<rparr>)
     \<lparr>ls_target = [0, 0, 0, 100], ls_position = [0, 0, 0, 0], ls_da = 0, ls_db = 0, ls_dc = 0,
      ls_de = 100, ls_dm = 0, ls_esteps_float = 100, ls_esteps = 100, ls_steps = [0, 0, 0, 100],
      ls_step_event_count = 100\<rparr> = [0, 0, 0, 1]"
  by (simp add: move_delta_mm_def planner_ex_def X_AXIS_def Y_AXIS_def Z_AXIS_def E_AXIS_def)

lemma e_move_millimeters: "steps blk = [0, 0, 0, 100] \<Longrightarrow> move_millimeters cfg_ex blk [0, 0, 0, 1] = 1"
  by (simp add: move_millimeters_def cfg_ex_def X_AXIS_def Y_AXIS_def Z_AXIS_def E_AXIS_def)

lemma e_move_no_slowdown: "\<not> slowdown_applies cfg_ex (planner_ex\<lparr>block_buffer := bb\<rparr>) 2 x"
  by (simp add: slowdown_applies_def cfg_ex_def)

lemma e_move_inverse: "slowdown_inverse_mm_s cfg_ex (planner_ex\<lparr>block_buffer := bb\<rparr>) 2 x = x"
  by (simp add: slowdown_inverse_mm_s_def e_move_no_slowdown Let_def)

lemma e_move_speed_factor: "speed_factor_loop (planner_ex\<lparr>block_buffer := bb\<rparr>) [0, 0, 0, 5] = 1"
  by (simp add: speed_factor_loop_def speed_factor_axis_def planner_ex_def
      X_AXIS_def Y_AXIS_def Z_AXIS_def E_AXIS_def)

lemma e_move_accel: "steps blk = [0, 0, 0, 100] \<Longrightarrow> block_accel (planner_ex\<lparr>block_buffer := bb\<rparr>) blk 100 100 = 100000"
  by (simp add: block_accel_def planner_ex_def X_AXIS_def Y_AXIS_def Z_AXIS_def)


lemma e_move_env: "\<not> ULTRA_LCD cfg_ex" "fanSpeeds move_env_ex = [0]" "stepper_isr_enabled move_env_ex"
  by (simp_all add: cfg_ex_def move_env_ex_def)

lemma e_move_kinematics:
  assumes "steps blk = [0, 0, 0, 100]" and "step_event_count blk = 100"
  shows "buffer_line_kinematics cfg_ex move_env_ex (planner_ex\<lparr>block_buffer := bb\<rparr>)
     \<lparr>ls_target = [0, 0, 0, 100], ls_position = [0, 0, 0, 0], ls_da = 0, ls_db = 0, ls_dc = 0,
      ls_de = 100, ls_dm = 0, ls_esteps_float = 100, ls_esteps = 100, ls_steps = [0, 0, 0, 100],
      ls_step_event_count = 100\<rparr> blk 5 =
     \<lparr>k_planner = (planner_ex\<lparr>block_buffer := bb\<rparr>),
      k_block = blk\<lparr>fan_speed := [0], millimeters := 1, nominal_speed := 5, nominal_rate := 500,
                    acceleration_steps_per_s2 := 100000, acceleration := 1000\<rparr>,
      k_current_speed = [0, 0, 0, 5], k_moves_queued = 2\<rparr>"
proof -
  have s1: "steps (blk\<lparr>fan_speed := [0]\<rparr>) = [0, 0, 0, 100]" using assms by simp
  show ?thesis
    unfolding buffer_line_kinematics_def Let_def e_move_delta e_move_env e_move_queued
    by (simp add: e_move_feedrate e_move_millimeters [OF s1] e_move_inverse e_move_speed_factor e_move_accel [OF s1] e_move_env assms)
qed


lemma e_move_safe_speed: "safe_speed_loop (planner_ex\<lparr>block_buffer := bb\<rparr>) 5 [0, 0, 0, 5] = 5"
  by (simp add: safe_speed_loop_def safe_speed_axis_def planner_ex_def
      X_AXIS_def Y_AXIS_def Z_AXIS_def E_AXIS_def Let_def)

lemma e_move_junction: "junction_speed (planner_ex\<lparr>block_buffer := bb\<rparr>) 2 5 [0, 0, 0, 5] 5 = (5, True)"
  by (simp add: junction_speed_def planner_ex_def)

lemma e_move_allowable: "max_allowable_speed cfg_ex (- 1000) 0 1 = sqrt 2000"
  by (simp add: max_allowable_speed_def cfg_ex_def sq_def)

lemma e_move_allowable_bound: "5 \<le> sqrt 2000"
  by (rule real_le_rsqrt) simp

lemma e_move_slot:
  "unat (block_buffer_head (planner_ex\<lparr>block_buffer := bb\<rparr>)) = unat (block_buffer_head planner_ex)"
  "block_buffer_head (planner_ex\<lparr>block_buffer := bb\<rparr>) = block_buffer_head planner_ex"
  "length (block_buffer (planner_ex\<lparr>block_buffer :=
      (block_buffer planner_ex)[unat (block_buffer_head planner_ex) := blk]\<rparr>)) = 4"
  "unat (block_buffer_head planner_ex) = 2"
  by (simp_all add: planner_ex_def)

lemma e_move_len:
  "unat (block_buffer_head (planner_ex\<lparr>block_buffer :=
      (block_buffer planner_ex)[unat (block_buffer_head planner_ex) := blk]\<rparr>))
   < length (block_buffer (planner_ex\<lparr>block_buffer :=
      (block_buffer planner_ex)[unat (block_buffer_head planner_ex) := blk]\<rparr>))"
  by (simp add: planner_ex_def)

lemma e_move_block_fields:
  "steps (block_ex\<lparr>flag := 0, direction_bits := 0, steps := [0, 0, 0, 100],
      step_event_count := 100\<rparr>) = [0, 0, 0, 100]"
  "step_event_count (block_ex\<lparr>flag := 0, direction_bits := 0, steps := [0, 0, 0, 100],
      step_event_count := 100\<rparr>) = 100"
  by simp_all

lemma e_move_new_block:
  "block_buffer (ad_planner e_move_admitted) ! unat (block_buffer_head planner_ex) =
     block_ex\<lparr>flag := 7, direction_bits := 0, steps := [0, 0, 0, 100], step_event_count := 100,
       fan_speed := [0], millimeters := 1, nominal_speed := 5, nominal_rate := 500,
       acceleration_steps_per_s2 := 100000, acceleration := 1000,
       max_entry_speed := 5, entry_speed := 0\<rparr>"
  unfolding e_move_admitted_def Let_def admitted_block [OF e_move_len, unfolded e_move_slot(1)]
    e_move_steps e_move_block [unfolded e_move_steps] e_move_kinematics [OF e_move_block_fields]
  by (simp add: e_move_safe_speed e_move_junction e_move_allowable e_move_allowable_bound
      e_move_env SBI_def BLOCK_BIT_START_FROM_FULL_HALT_def BLOCK_BIT_RECALCULATE_def
      BLOCK_BIT_NOMINAL_LENGTH_def)

lemma e_move_vmax: "ad_vmax_junction e_move_admitted = 5"
  unfolding e_move_admitted_def Let_def admitted_fields e_move_steps
    e_move_block [unfolded e_move_steps] e_move_kinematics [OF e_move_block_fields]
  by (simp add: e_move_safe_speed e_move_junction)

lemma e_move_is_admitted:
  "Planner_buffer_line cfg_ex move_env_ex planner_ex 0 0 0 1 5 0
     = recalculate cfg_ex (ad_planner e_move_admitted)"
proof -
  let ?ls = "buffer_line_steps cfg_ex move_env_ex planner_ex 0 0 0 1"
  let ?p1 = "planner_ex\<lparr>position := ls_position ?ls\<rparr>"
  have pos: "ls_position ?ls = position planner_ex"
    unfolding e_move_steps by (simp add: planner_ex_def)
  have p1: "?p1 = planner_ex" unfolding pos by simp
  have w: "wait_for_free_block (idle move_env_ex)
             (next_block_index cfg_ex (block_buffer_head planner_ex)) planner_ex = Some planner_ex"
    by (rule wait_for_free_block_room) (rule planner_ex_room)
  have cnt: "\<not> unat (step_event_count (new_block ?ls planner_ex)) < MIN_STEPS_PER_SEGMENT cfg_ex"
    unfolding e_move_block by (simp add: cfg_ex_def)
  show ?thesis
    unfolding Planner_buffer_line_def Let_def p1 w option.case e_move_admitted_def
    using cnt by simp
qed

theorem admitted_entry_speeds_witness:
  "unat (block_buffer_head planner_ex) < length (block_buffer planner_ex)
   \<and> stepper_isr_enabled move_env_ex
   \<and> max_entry_speed (block_buffer (ad_planner e_move_admitted) ! unat (block_buffer_head planner_ex)) = ad_vmax_junction e_move_admitted
   \<and> entry_speed (block_buffer (ad_planner e_move_admitted) ! unat (block_buffer_head planner_ex)) = 0
   \<and> block_buffer_head (ad_planner e_move_admitted)
        = next_block_index cfg_ex (block_buffer_head planner_ex)"
proof -
  have len: "unat (block_buffer_head planner_ex) < length (block_buffer planner_ex)"
    by (simp add: planner_ex_def)
  from admitted_entry_speeds [OF e_move_len, where cfg = cfg_ex and env = move_env_ex
      and ls = "buffer_line_steps cfg_ex move_env_ex planner_ex 0 0 0 1"
      and ?block0.0 = "new_block (buffer_line_steps cfg_ex move_env_ex planner_ex 0 0 0 1) planner_ex"
      and nbh = "next_block_index cfg_ex (block_buffer_head planner_ex)" and fr = 5
      and ?blk1 = "new_block (buffer_line_steps cfg_ex move_env_ex planner_ex 0 0 0 1) planner_ex",
      unfolded e_move_slot(1), folded e_move_admitted_def [unfolded Let_def]] e_move_env(3)
  have "max_entry_speed (block_buffer (ad_planner e_move_admitted) ! unat (block_buffer_head planner_ex)) = ad_vmax_junction e_move_admitted
   \<and> entry_speed (block_buffer (ad_planner e_move_admitted) ! unat (block_buffer_head planner_ex)) = 0
   \<and> block_buffer_head (ad_planner e_move_admitted)
        = next_block_index cfg_ex (block_buffer_head planner_ex)"
    by simp
  then show ?thesis using len e_move_env(3) by blast
qed

text \<open>
  The claim as stated says that \<open>entry_speed\<close> is set to the minimum of the junction
  speed and the allowable speed. The extruder-only move of 1 mm at 5 mm/s is admitted while
  the stepper interrupt is enabled; its junction speed is 5 and its allowable speed is the
  square root of 2000, so the minimum is 5, and the block is written with
  \<open>entry_speed = 0\<close>.
\<close>

theorem admitted_move_entry_speed_zero:
  "Planner_buffer_line cfg_ex move_env_ex planner_ex 0 0 0 1 5 0
     = recalculate cfg_ex (ad_planner e_move_admitted)
   \<and> stepper_isr_enabled move_env_ex
   \<and> ad_vmax_junction e_move_admitted = 5
   \<and> max_allowable_speed cfg_ex (- acceleration (block_buffer (ad_planner e_move_admitted) ! unat (block_buffer_head planner_ex))) 0 (millimeters (block_buffer (ad_planner e_move_admitted) ! unat (block_buffer_head planner_ex))) = sqrt 2000
   \<and> min (ad_vmax_junction e_move_admitted)
         (max_allowable_speed cfg_ex (- acceleration (block_buffer (ad_planner e_move_admitted) ! unat (block_buffer_head planner_ex))) 0 (millimeters (block_buffer (ad_planner e_move_admitted) ! unat (block_buffer_head planner_ex)))) = 5
   \<and> max_entry_speed (block_buffer (ad_planner e_move_admitted) ! unat (block_buffer_head planner_ex)) = 5
   \<and> entry_speed (block_buffer (ad_planner e_move_admitted) ! unat (block_buffer_head planner_ex)) = 0"
proof -
  have a: "max_allowable_speed cfg_ex (- acceleration (block_buffer (ad_planner e_move_admitted) ! unat (block_buffer_head planner_ex))) 0 (millimeters (block_buffer (ad_planner e_move_admitted) ! unat (block_buffer_head planner_ex))) = sqrt 2000"
    unfolding e_move_new_block by (simp add: e_move_allowable)
  have m: "min (5 :: real) (sqrt 2000) = 5" using e_move_allowable_bound by simp
  have s: "max_entry_speed (block_buffer (ad_planner e_move_admitted) ! unat (block_buffer_head planner_ex)) = 5" "entry_speed (block_buffer (ad_planner e_move_admitted) ! unat (block_buffer_head planner_ex)) = 0"
    unfolding e_move_new_block by simp_all
  show ?thesis
    unfolding a e_move_vmax m s using e_move_is_admitted e_move_env(3) by simp
qed

end
